theory Spec2Isabelle
  imports Main "HOL-Library.Monad_Syntax"
begin

section \<open>Python values\<close>

text \<open>
  A Python \<^verbatim>\<open>str\<close> is a sequence of Unicode code points, and \<^verbatim>\<open>s[:50]\<close> and
  \<^verbatim>\<open>len\<close> count code points. A string is therefore a list of code points, each a
  natural number; \<open>asc\<close> embeds an ASCII literal. Non-ASCII literals of the source are
  written out as code points.
\<close>

type_synonym ustr = "nat list"

definition asc :: "string \<Rightarrow> ustr" where
  "asc s = map of_char s"

text \<open>\<^verbatim>\<open>"\n".join(lines)\<close>\<close>

fun join_nl :: "ustr list \<Rightarrow> ustr" where
  "join_nl [] = []"
| "join_nl [l] = l"
| "join_nl (l # ls) = l @ [10] @ join_nl ls"

text \<open>The number of lines of a text: one more than the number of line feeds.\<close>

definition line_count :: "ustr \<Rightarrow> nat" where
  "line_count s = Suc (length (filter (\<lambda>c. c = 10) s))"

text \<open>Zero-padded decimal of a fixed width, as \<^verbatim>\<open>%02d\<close>, \<^verbatim>\<open>%04d\<close>, \<^verbatim>\<open>%06d\<close> print a number
  that fits the width.\<close>

primrec zpad :: "nat \<Rightarrow> nat \<Rightarrow> ustr" where
  "zpad 0 n = []"
| "zpad (Suc w) n = zpad w (n div 10) @ [48 + n mod 10]"

text \<open>The decimal text of an int.\<close>

fun str_nat :: "nat \<Rightarrow> ustr" where
  "str_nat n = (if n < 10 then [48 + n] else str_nat (n div 10) @ [48 + n mod 10])"

definition str_int :: "int \<Rightarrow> ustr" where
  "str_int i = (if i < 0 then 45 # str_nat (nat (- i)) else str_nat (nat i))"

text \<open>
  A float: its sign, its significand and its binary exponent (the value is the signed
  significand times that power of two), an infinity with its sign, or not-a-number. The
  program never computes with a float; it stores it, prints it and compares it with an int.
\<close>

datatype pyfloat = Finite bool nat int | Infinite bool | NaN

text \<open>
  The values a decoded JSON frame or a decoded storage file can hold, which are also the
  values the adapter puts into a metadata dict. A dict keeps its insertion order, as
  Python's does.
\<close>

datatype pyval =
    PNone
  | PBool bool
  | PInt int
  | PFloat pyfloat
  | PStr ustr
  | PList "pyval list"
  | PDict "(ustr \<times> pyval) list"

text \<open>The exceptions that the modelled code can meet; all are subclasses of
  \<^verbatim>\<open>Exception\<close>, so \<^verbatim>\<open>except Exception\<close> catches each of them.\<close>

datatype exn =
    KeyError
  | TypeError
  | ValueError
  | AttributeError
  | OSError
  | UnicodeEncodeError
  | JSONDecodeError

text \<open>
  The result of running a piece of the program: it returns a value, it raises, or it
  produces a value that the model does not hold. \<open>Unmodelled\<close> arises in two places
  only, both while a stored entry is read back and neither by an exception: the entry's
  fields have another dynamic type than the dataclass declares (the source stores such a
  field unchecked), or its timestamp text carries a UTC offset (the datetime read is then
  an aware one).
\<close>

datatype 'a outcome = Returns 'a | Raises exn | Unmodelled

text \<open>
  The interpreter converts an int to its decimal text, and a decimal text to an int, only
  up to \<^verbatim>\<open>sys.int_max_str_digits\<close> digits (4300 unless reconfigured) and raises
  \<^verbatim>\<open>ValueError\<close> beyond. \<open>print_int\<close> is \<^verbatim>\<open>str(i)\<close>, as an f-string and the JSON
  printer call it.
\<close>

definition int_max_str_digits :: nat where
  "int_max_str_digits = 4300"

definition printable_int :: "int \<Rightarrow> bool" where
  "printable_int i = (\<bar>i\<bar> < 10 ^ int_max_str_digits)"

definition print_int :: "int \<Rightarrow> ustr outcome" where
  "print_int i = (if printable_int i then Returns (str_int i) else Raises ValueError)"

text \<open>Slices \<^verbatim>\<open>xs[i:]\<close> and \<^verbatim>\<open>xs[:i]\<close>: a negative index counts from the end, and every
  index is clamped to the list.\<close>

definition slice_index :: "int \<Rightarrow> 'a list \<Rightarrow> nat" where
  "slice_index i xs =
     (let n = int (length xs) in nat (if i < 0 then max 0 (n + i) else min i n))"

definition slice_from :: "int \<Rightarrow> 'a list \<Rightarrow> 'a list" where
  "slice_from i xs = drop (slice_index i xs) xs"

definition slice_to :: "int \<Rightarrow> 'a list \<Rightarrow> 'a list" where
  "slice_to i xs = take (slice_index i xs) xs"

section \<open>Timestamps\<close>

text \<open>
  A naive \<^verbatim>\<open>datetime\<close>, as \<^verbatim>\<open>datetime.now()\<close> returns it. The clock is an input
  of the model: every operation that reads it takes the value read.
\<close>

record datetime =
  year :: nat
  month :: nat
  day :: nat
  hour :: nat
  minute :: nat
  second :: nat
  microsecond :: nat

definition is_leap :: "nat \<Rightarrow> bool" where
  "is_leap y = (y mod 4 = 0 \<and> (y mod 100 \<noteq> 0 \<or> y mod 400 = 0))"

definition days_in_month :: "nat \<Rightarrow> nat \<Rightarrow> nat" where
  "days_in_month y m =
     (if m = 2 then (if is_leap y then 29 else 28)
      else if m = 4 \<or> m = 6 \<or> m = 9 \<or> m = 11 then 30 else 31)"

text \<open>The range checks of the \<^verbatim>\<open>datetime\<close> constructor.\<close>

definition valid_fields :: "nat \<Rightarrow> nat \<Rightarrow> nat \<Rightarrow> nat \<Rightarrow> nat \<Rightarrow> nat \<Rightarrow> nat \<Rightarrow> bool" where
  "valid_fields y mo d h mi s us =
     (1 \<le> y \<and> y \<le> 9999 \<and> 1 \<le> mo \<and> mo \<le> 12 \<and> 1 \<le> d \<and> d \<le> days_in_month y mo
      \<and> h < 24 \<and> mi < 60 \<and> s < 60 \<and> us < 1000000)"

definition valid_datetime :: "datetime \<Rightarrow> bool" where
  "valid_datetime t =
     valid_fields (year t) (month t) (day t) (hour t) (minute t) (second t) (microsecond t)"

text \<open>\<^verbatim>\<open>datetime.isoformat()\<close>: \<^verbatim>\<open>YYYY-MM-DDTHH:MM:SS\<close>, followed by \<^verbatim>\<open>.ffffff\<close> when
  the microsecond is not zero.\<close>

definition isoformat :: "datetime \<Rightarrow> ustr" where
  "isoformat t =
     zpad 4 (year t) @ [45] @ zpad 2 (month t) @ [45] @ zpad 2 (day t) @ [84]
     @ zpad 2 (hour t) @ [58] @ zpad 2 (minute t) @ [58] @ zpad 2 (second t)
     @ (if microsecond t = 0 then [] else [46] @ zpad 6 (microsecond t))"

text \<open>\<^verbatim>\<open>strftime("%m-%d %H:%M")\<close>\<close>

definition strftime_md_hm :: "datetime \<Rightarrow> ustr" where
  "strftime_md_hm t =
     zpad 2 (month t) @ [45] @ zpad 2 (day t) @ [32] @ zpad 2 (hour t) @ [58]
     @ zpad 2 (minute t)"

definition is_digit :: "nat \<Rightarrow> bool" where
  "is_digit c = (48 \<le> c \<and> c \<le> 57)"

definition digits_val :: "ustr \<Rightarrow> nat" where
  "digits_val ds = foldl (\<lambda>a c. 10 * a + (c - 48)) 0 ds"

definition take_num :: "nat \<Rightarrow> ustr \<Rightarrow> (nat \<times> ustr) option" where
  "take_num w s =
     (if w \<le> length s \<and> list_all is_digit (take w s)
      then Some (digits_val (take w s), drop w s) else None)"

definition expect :: "nat \<Rightarrow> ustr \<Rightarrow> ustr option" where
  "expect c s = (case s of [] \<Rightarrow> None | x # r \<Rightarrow> if x = c then Some r else None)"

definition skip1 :: "ustr \<Rightarrow> ustr option" where
  "skip1 s = (case s of [] \<Rightarrow> None | x # r \<Rightarrow> Some r)"

text \<open>The two shapes that \<open>isoformat\<close> prints, read field by field. The separator
  between date and time may be any single character.\<close>

definition parse_iso :: "ustr \<Rightarrow> datetime option" where
  "parse_iso s0 = do {
     (y, s1) \<leftarrow> take_num 4 s0;
     s2 \<leftarrow> expect 45 s1;
     (mo, s3) \<leftarrow> take_num 2 s2;
     s4 \<leftarrow> expect 45 s3;
     (d, s5) \<leftarrow> take_num 2 s4;
     s6 \<leftarrow> skip1 s5;
     (h, s7) \<leftarrow> take_num 2 s6;
     s8 \<leftarrow> expect 58 s7;
     (mi, s9) \<leftarrow> take_num 2 s8;
     s10 \<leftarrow> expect 58 s9;
     (sc, s11) \<leftarrow> take_num 2 s10;
     if s11 = [] then
       Some \<lparr>year = y, month = mo, day = d, hour = h, minute = mi, second = sc,
             microsecond = 0\<rparr>
     else do {
       s12 \<leftarrow> expect 46 s11;
       (us, s13) \<leftarrow> take_num 6 s12;
       if s13 = [] then
         Some \<lparr>year = y, month = mo, day = d, hour = h, minute = mi, second = sc,
               microsecond = us\<rparr>
       else None
     }
   }"

text \<open>
  \<^verbatim>\<open>datetime.fromisoformat\<close> on a string. A text of one of the two shapes gives the
  datetime when its fields are in range and \<^verbatim>\<open>ValueError\<close> when they are not. A text
  of fewer than 7 characters, or one that does not start with four digits, is no ISO-8601
  text for any version of the library: \<^verbatim>\<open>ValueError\<close>. What the library does with any
  other text depends on its version, and is the parameter \<open>lib\<close> of the model: the naive
  datetime it reads, \<^verbatim>\<open>ValueError\<close>, or \<open>Unmodelled\<close> for a text with a UTC offset.
\<close>

definition fromisoformat :: "(ustr \<Rightarrow> datetime outcome) \<Rightarrow> ustr \<Rightarrow> datetime outcome" where
  "fromisoformat lib s =
     (case parse_iso s of
        Some t \<Rightarrow> if valid_datetime t then Returns t else Raises ValueError
      | None \<Rightarrow>
          if length s < 7 \<or> \<not> list_all is_digit (take 4 s) then Raises ValueError
          else lib s)"

section \<open>Memory items\<close>

record memory_item =
  memory_type :: ustr
  content :: ustr
  timestamp :: datetime
  metadata :: "(ustr \<times> pyval) list"

text \<open>\<^verbatim>\<open>MemoryItem.to_dict\<close>\<close>

definition to_dict :: "memory_item \<Rightarrow> pyval" where
  "to_dict m =
     PDict [(asc ''memory_type'', PStr (memory_type m)),
            (asc ''content'', PStr (content m)),
            (asc ''timestamp'', PStr (isoformat (timestamp m))),
            (asc ''metadata'', PDict (metadata m))]"

text \<open>\<^verbatim>\<open>data[key]\<close>: only a dict can be subscripted with a string; a missing key raises.\<close>

definition subscript :: "pyval \<Rightarrow> ustr \<Rightarrow> pyval outcome" where
  "subscript data k =
     (case data of
        PDict kvs \<Rightarrow> (case map_of kvs k of None \<Rightarrow> Raises KeyError | Some v \<Rightarrow> Returns v)
      | _ \<Rightarrow> Raises TypeError)"

text \<open>\<^verbatim>\<open>datetime.fromisoformat(v)\<close> on any value: the argument must be a string.\<close>

definition fromisoformat_val :: "(ustr \<Rightarrow> datetime outcome) \<Rightarrow> pyval \<Rightarrow> datetime outcome" where
  "fromisoformat_val lib v =
     (case v of PStr s \<Rightarrow> fromisoformat lib s | _ \<Rightarrow> Raises TypeError)"

text \<open>\<^verbatim>\<open>data.get("metadata", {})\<close>: only a dict has \<^verbatim>\<open>get\<close>.\<close>

definition get_metadata :: "pyval \<Rightarrow> pyval outcome" where
  "get_metadata data =
     (case data of
        PDict kvs \<Rightarrow> (case map_of kvs (asc ''metadata'') of
                        None \<Rightarrow> Returns (PDict []) | Some v \<Rightarrow> Returns v)
      | _ \<Rightarrow> Raises AttributeError)"

text \<open>The constructor call at the end of \<open>from_dict\<close>. It checks nothing; the record holds
  the item when the three values have the types the dataclass declares.\<close>

definition make_item :: "pyval \<Rightarrow> pyval \<Rightarrow> datetime \<Rightarrow> pyval \<Rightarrow> memory_item outcome" where
  "make_item mt c ts md =
     (case (mt, c, md) of
        (PStr mt', PStr c', PDict md') \<Rightarrow>
          Returns \<lparr>memory_type = mt', content = c', timestamp = ts, metadata = md'\<rparr>
      | _ \<Rightarrow> Unmodelled)"

text \<open>\<^verbatim>\<open>MemoryItem.from_dict\<close>: the four arguments are evaluated in the order written,
  and the first one that raises ends the call.\<close>

definition from_dict :: "(ustr \<Rightarrow> datetime outcome) \<Rightarrow> pyval \<Rightarrow> memory_item outcome" where
  "from_dict lib data =
     (case subscript data (asc ''memory_type'') of
        Raises e \<Rightarrow> Raises e | Unmodelled \<Rightarrow> Unmodelled
      | Returns mt \<Rightarrow>
     (case subscript data (asc ''content'') of
        Raises e \<Rightarrow> Raises e | Unmodelled \<Rightarrow> Unmodelled
      | Returns c \<Rightarrow>
     (case subscript data (asc ''timestamp'') of
        Raises e \<Rightarrow> Raises e | Unmodelled \<Rightarrow> Unmodelled
      | Returns tv \<Rightarrow>
     (case fromisoformat_val lib tv of
        Raises e \<Rightarrow> Raises e | Unmodelled \<Rightarrow> Unmodelled
      | Returns ts \<Rightarrow>
     (case get_metadata data of
        Raises e \<Rightarrow> Raises e | Unmodelled \<Rightarrow> Unmodelled
      | Returns md \<Rightarrow> make_item mt c ts md)))))"

section \<open>The storage file\<close>

text \<open>
  The file at the store's path: absent, a text that is not a JSON document (a write cut
  short, foreign content), or a JSON document. The printer and the parser of the
  \<^verbatim>\<open>json\<close> library are taken as a faithful codec: a document that was written whole
  is read back as the value that was written.
\<close>

datatype disk_file = NoFile | BadFile | JsonFile pyval

text \<open>What the file system does to one open-and-transfer: nothing wrong, \<^verbatim>\<open>open\<close>
  raises, or the transfer raises after the file was opened.\<close>

datatype io_fault = NoFault | OpenFault | TransferFault

text \<open>A lone surrogate code point cannot be encoded as UTF-8. The file is opened with
  \<^verbatim>\<open>encoding="utf-8"\<close> and the document is printed with \<^verbatim>\<open>ensure_ascii=False\<close>, so
  writing such a code point raises.\<close>

definition encodable_str :: "ustr \<Rightarrow> bool" where
  "encodable_str s = list_all (\<lambda>c. c < 55296 \<or> 57343 < c) s"

primrec encodable :: "pyval \<Rightarrow> bool" where
  "encodable PNone = True"
| "encodable (PBool b) = True"
| "encodable (PInt i) = True"
| "encodable (PFloat x) = True"
| "encodable (PStr s) = encodable_str s"
| "encodable (PList xs) = list_all (\<lambda>b. b) (map encodable xs)"
| "encodable (PDict kvs) =
     list_all (\<lambda>(k, b). encodable_str k \<and> b) (map (map_prod (\<lambda>k. k) encodable) kvs)"

text \<open>Every int of the value is within the digit limit, so that the JSON printer can
  print it and the JSON parser can read it.\<close>

primrec ints_printable :: "pyval \<Rightarrow> bool" where
  "ints_printable PNone = True"
| "ints_printable (PBool b) = True"
| "ints_printable (PInt i) = printable_int i"
| "ints_printable (PFloat x) = True"
| "ints_printable (PStr s) = True"
| "ints_printable (PList xs) = list_all (\<lambda>b. b) (map ints_printable xs)"
| "ints_printable (PDict kvs) =
     list_all (\<lambda>(k, b). b) (map (map_prod (\<lambda>k. k) ints_printable) kvs)"

text \<open>
  \<^verbatim>\<open>json.dump(data, f, ensure_ascii=False, indent=2)\<close> prints the document piece by
  piece in document order and writes each piece as it is made. \<open>dump_fault\<close> is the
  exception of the first piece that cannot be made or written: \<^verbatim>\<open>ValueError\<close> for an
  int beyond the digit limit, \<^verbatim>\<open>UnicodeEncodeError\<close> for a string with a lone
  surrogate. Floats print, also the infinities and not-a-number (\<^verbatim>\<open>allow_nan\<close> is left
  at its default).
\<close>

fun first_fault :: "exn option list \<Rightarrow> exn option" where
  "first_fault [] = None"
| "first_fault (None # fs) = first_fault fs"
| "first_fault (Some e # fs) = Some e"

definition str_fault :: "ustr \<Rightarrow> exn option" where
  "str_fault s = (if encodable_str s then None else Some UnicodeEncodeError)"

primrec dump_fault :: "pyval \<Rightarrow> exn option" where
  "dump_fault PNone = None"
| "dump_fault (PBool b) = None"
| "dump_fault (PInt i) = (if printable_int i then None else Some ValueError)"
| "dump_fault (PFloat x) = None"
| "dump_fault (PStr s) = str_fault s"
| "dump_fault (PList xs) = first_fault (map dump_fault xs)"
| "dump_fault (PDict kvs) =
     first_fault (concat (map (\<lambda>(k, f). [str_fault k, f])
                    (map (map_prod (\<lambda>k. k) dump_fault) kvs)))"

text \<open>\<^verbatim>\<open>with open(path, "w", encoding="utf-8") as f: json.dump(data, f, ...)\<close>:
  the new file and whether the statement raised. Opening truncates the file, and the
  document is written piece by piece, so a failure after opening leaves a text that is
  not a JSON document.\<close>

definition write_json :: "io_fault \<Rightarrow> pyval \<Rightarrow> disk_file \<Rightarrow> disk_file \<times> unit outcome" where
  "write_json io doc old =
     (if io = OpenFault then (old, Raises OSError)
      else case dump_fault doc of
             Some e \<Rightarrow> (BadFile, Raises e)
           | None \<Rightarrow>
               if io = TransferFault then (BadFile, Raises OSError)
               else (JsonFile doc, Returns ()))"

text \<open>\<^verbatim>\<open>with open(path, encoding="utf-8") as f: data = json.load(f)\<close> on a file that
  exists. The parser raises \<^verbatim>\<open>ValueError\<close> on an int beyond the digit limit.\<close>

definition read_json :: "io_fault \<Rightarrow> disk_file \<Rightarrow> pyval outcome" where
  "read_json io f =
     (if io \<noteq> NoFault then Raises OSError
      else case f of
        NoFile \<Rightarrow> Raises OSError
      | BadFile \<Rightarrow> Raises JSONDecodeError
      | JsonFile doc \<Rightarrow> if ints_printable doc then Returns doc else Raises ValueError)"

section \<open>ForumMemory\<close>

text \<open>The store: its bound, its list, the storage file as the store sees it, and the
  exceptions that were passed to \<^verbatim>\<open>logger.error\<close>.\<close>

record forum_memory =
  max_items :: int
  memories :: "memory_item list"
  storage :: disk_file
  errors :: "exn list"

text \<open>\<^verbatim>\<open>ForumMemory._save\<close>\<close>

definition save :: "io_fault \<Rightarrow> forum_memory \<Rightarrow> forum_memory outcome" where
  "save io s =
     (let data = PList (map to_dict (memories s));
          (f, r) = write_json io data (storage s)
      in case r of
           Returns u \<Rightarrow> Returns (s\<lparr>storage := f\<rparr>)
         | Raises e \<Rightarrow> Returns (s\<lparr>storage := f, errors := errors s @ [e]\<rparr>)
         | Unmodelled \<Rightarrow> Unmodelled)"

text \<open>\<^verbatim>\<open>[MemoryItem.from_dict(d) for d in data]\<close>: the values that iterating
  \<open>data\<close> yields (a list gives its elements, a dict its keys, a string its characters;
  nothing else is iterable), then \<open>from_dict\<close> on each in turn. The first entry that
  raises ends the comprehension, whatever the entries before it hold.\<close>

definition iterate :: "pyval \<Rightarrow> pyval list outcome" where
  "iterate data =
     (case data of
        PList xs \<Rightarrow> Returns xs
      | PDict kvs \<Rightarrow> Returns (map (\<lambda>(k, v). PStr k) kvs)
      | PStr s \<Rightarrow> Returns (map (\<lambda>c. PStr [c]) s)
      | _ \<Rightarrow> Raises TypeError)"

fun from_dicts :: "(ustr \<Rightarrow> datetime outcome) \<Rightarrow> pyval list \<Rightarrow> memory_item list outcome" where
  "from_dicts lib [] = Returns []"
| "from_dicts lib (d # ds) =
     (case from_dict lib d of
        Raises e \<Rightarrow> Raises e
      | Unmodelled \<Rightarrow>
          (case from_dicts lib ds of Raises e \<Rightarrow> Raises e | _ \<Rightarrow> Unmodelled)
      | Returns m \<Rightarrow>
          (case from_dicts lib ds of
             Raises e \<Rightarrow> Raises e | Unmodelled \<Rightarrow> Unmodelled
           | Returns ms \<Rightarrow> Returns (m # ms)))"

text \<open>The body of the \<^verbatim>\<open>try\<close> in \<^verbatim>\<open>_load\<close>.\<close>

definition load_body ::
  "(ustr \<Rightarrow> datetime outcome) \<Rightarrow> io_fault \<Rightarrow> disk_file \<Rightarrow> memory_item list outcome" where
  "load_body lib io f =
     (case read_json io f of
        Raises e \<Rightarrow> Raises e | Unmodelled \<Rightarrow> Unmodelled
      | Returns data \<Rightarrow>
          (case iterate data of
             Raises e \<Rightarrow> Raises e | Unmodelled \<Rightarrow> Unmodelled
           | Returns ds \<Rightarrow> from_dicts lib ds))"

text \<open>
  \<^verbatim>\<open>ForumMemory._load\<close>. Whatever the body of the \<^verbatim>\<open>try\<close> does, the method returns:
  \<^verbatim>\<open>except Exception\<close> catches what the body raises. The result is the store afterwards,
  or \<open>None\<close> when the body produced a list that the model does not hold.
\<close>

definition load ::
  "(ustr \<Rightarrow> datetime outcome) \<Rightarrow> io_fault \<Rightarrow> forum_memory \<Rightarrow> forum_memory option outcome" where
  "load lib io s =
     (if storage s = NoFile then Returns (Some s)
      else case load_body lib io (storage s) of
             Returns ms \<Rightarrow> Returns (Some (s\<lparr>memories := ms\<rparr>))
           | Raises e \<Rightarrow> Returns (Some (s\<lparr>memories := [], errors := errors s @ [e]\<rparr>))
           | Unmodelled \<Rightarrow> Returns None)"

text \<open>\<^verbatim>\<open>ForumMemory.__init__\<close>. \<^verbatim>\<open>os.makedirs\<close> stands outside every \<^verbatim>\<open>try\<close>;
  \<open>makedirs_ok\<close> says whether it succeeds.\<close>

definition init ::
  "bool \<Rightarrow> (ustr \<Rightarrow> datetime outcome) \<Rightarrow> io_fault \<Rightarrow> disk_file \<Rightarrow> int
     \<Rightarrow> forum_memory option outcome" where
  "init makedirs_ok lib io f n =
     (if \<not> makedirs_ok then Raises OSError
      else load lib io \<lparr>max_items = n, memories = [], storage = f, errors = []\<rparr>)"

text \<open>\<^verbatim>\<open>ForumMemory.add_memory\<close>. \<open>now\<close> is the clock value that the item's default
  factory reads; \<open>meta\<close> is the optional metadata argument.\<close>

definition trim :: "int \<Rightarrow> memory_item list \<Rightarrow> memory_item list" where
  "trim n ms = (if int (length ms) > n then slice_from (- n) ms else ms)"

definition add_memory ::
  "datetime \<Rightarrow> ustr \<Rightarrow> ustr \<Rightarrow> (ustr \<times> pyval) list option \<Rightarrow> io_fault \<Rightarrow> forum_memory
     \<Rightarrow> forum_memory outcome" where
  "add_memory now mtype ctext meta io s =
     (let item = \<lparr>memory_type = mtype, content = ctext, timestamp = now,
                  metadata = (case meta of None \<Rightarrow> [] | Some md \<Rightarrow> if md = [] then [] else md)\<rparr>;
          ms = memories s @ [item]
      in save io (s\<lparr>memories := trim (max_items s) ms\<rparr>))"

text \<open>\<^verbatim>\<open>ForumMemory.get_memories\<close>: both arguments are optional, and both are tested
  for truth.\<close>

definition get_memories :: "forum_memory \<Rightarrow> ustr option \<Rightarrow> int option \<Rightarrow> memory_item list" where
  "get_memories s mtype limit =
     (let items = memories s;
          items = (case mtype of
                     None \<Rightarrow> items
                   | Some t \<Rightarrow> if t = [] then items
                               else filter (\<lambda>m. memory_type m = t) items);
          items = rev items
      in case limit of
           None \<Rightarrow> items
         | Some l \<Rightarrow> if l = 0 then items else slice_to l items)"

text \<open>\<^verbatim>\<open>ForumMemory._get_type_emoji\<close>\<close>

definition emojis :: "(ustr \<times> ustr) list" where
  "emojis =
     [(asc ''browsed'', [128064]),
      (asc ''mentioned'', [128226]),
      (asc ''replied'', [128172]),
      (asc ''new_thread'', [128221]),
      (asc ''created'', [9997, 65039]),
      (asc ''diary'', [128212])]"

definition get_type_emoji :: "ustr \<Rightarrow> ustr" where
  "get_type_emoji mtype = (case map_of emojis mtype of None \<Rightarrow> [128204] | Some e \<Rightarrow> e)"

text \<open>\<^verbatim>\<open>ForumMemory.get_summary\<close>\<close>

definition no_activity :: ustr where
  "no_activity = [26368, 36817, 27809, 26377, 35770, 22363, 27963, 21160, 35760, 24405, 12290]"

definition summary_header :: ustr where
  "summary_header =
     [25105, 26368, 36817, 22312] @ asc '' AstrBook '' @ [35770, 22363, 30340, 27963, 21160, 65306]"

definition summary_line :: "memory_item \<Rightarrow> ustr" where
  "summary_line item =
     asc ''  '' @ get_type_emoji (memory_type item) @ asc '' ['' @ strftime_md_hm (timestamp item)
     @ asc ''] '' @ content item"

definition get_summary :: "forum_memory \<Rightarrow> int \<Rightarrow> ustr" where
  "get_summary s limit =
     (let items = get_memories s None (Some limit)
      in if items = [] then no_activity
         else join_nl (summary_header # map summary_line items))"

text \<open>
  \<^verbatim>\<open>ForumMemory.get_context_for_thread\<close>. The argument is an int;
  \<^verbatim>\<open>m.metadata.get("thread_id") == thread_id\<close> holds for an int of the same value and,
  as Python compares them, for the bool and for the float of that value. Both f-strings
  print the thread id, which raises \<^verbatim>\<open>ValueError\<close> beyond the digit limit.
\<close>

definition float_eq_int :: "pyfloat \<Rightarrow> int \<Rightarrow> bool" where
  "float_eq_int x i =
     (case x of
        Finite neg m e \<Rightarrow>
          (let v = (if neg then - int m else int m)
           in if 0 \<le> e then v * 2 ^ nat e = i else v = i * 2 ^ nat (- e))
      | _ \<Rightarrow> False)"

definition eq_int :: "pyval option \<Rightarrow> int \<Rightarrow> bool" where
  "eq_int v i =
     (case v of
        Some (PInt j) \<Rightarrow> j = i
      | Some (PBool b) \<Rightarrow> (if b then 1 else 0) = i
      | Some (PFloat x) \<Rightarrow> float_eq_int x i
      | _ \<Rightarrow> False)"

definition about_thread :: "int \<Rightarrow> memory_item \<Rightarrow> bool" where
  "about_thread thread_id m = eq_int (map_of (metadata m) (asc ''thread_id'')) thread_id"

text \<open>The two texts, from the printed thread id.\<close>

definition no_thread_activity :: "ustr \<Rightarrow> ustr" where
  "no_thread_activity id_text =
     [27809, 26377, 19982, 24086, 23376] @ asc '' #'' @ id_text @ asc '' ''
     @ [30456, 20851, 30340, 27963, 21160, 35760, 24405, 12290]"

definition thread_header :: "ustr \<Rightarrow> ustr" where
  "thread_header id_text =
     [19982, 24086, 23376] @ asc '' #'' @ id_text @ asc '' ''
     @ [30456, 20851, 30340, 27963, 21160, 65306]"

definition thread_line :: "memory_item \<Rightarrow> ustr" where
  "thread_line item =
     asc ''  - ['' @ strftime_md_hm (timestamp item) @ asc ''] '' @ content item"

definition get_context_for_thread :: "forum_memory \<Rightarrow> int \<Rightarrow> ustr outcome" where
  "get_context_for_thread s thread_id =
     (let items = filter (about_thread thread_id) (memories s)
      in case print_int thread_id of
           Raises e \<Rightarrow> Raises e
         | Unmodelled \<Rightarrow> Unmodelled
         | Returns id_text \<Rightarrow>
             if items = [] then Returns (no_thread_activity id_text)
             else Returns (join_nl (thread_header id_text
                                      # map thread_line (slice_from (- 5) items))))"

text \<open>\<^verbatim>\<open>ForumMemory.clear\<close>\<close>

definition clear :: "io_fault \<Rightarrow> forum_memory \<Rightarrow> forum_memory outcome" where
  "clear io s = save io (s\<lparr>memories := []\<rparr>)"

section \<open>AstrBookAdapter\<close>

datatype task = WsLoopTask | AutoBrowseTask

record adapter =
  token :: ustr
  auto_browse :: bool
  memory :: forum_memory
  bot_user_id :: pyval
  tasks :: "task list"

text \<open>
  \<^verbatim>\<open>AstrBookAdapter._run\<close>. With an empty token it logs and returns. Otherwise it
  creates its tasks and awaits them; both task bodies are loops without an exit, so
  \<^verbatim>\<open>gather\<close> is left only by cancellation.
\<close>

datatype run_result = ReturnedDisabled | AwaitingTasks

definition run :: "adapter \<Rightarrow> adapter \<times> run_result outcome" where
  "run a =
     (if token a = [] then (a, Returns ReturnedDisabled)
      else let a1 = a\<lparr>tasks := tasks a @ [WsLoopTask]\<rparr>;
               a2 = (if auto_browse a1 then a1\<lparr>tasks := tasks a1 @ [AutoBrowseTask]\<rparr> else a1)
           in (a2, Returns AwaitingTasks))"

subsection \<open>The connection loop\<close>

text \<open>
  What one call of \<^verbatim>\<open>_ws_connect\<close> meets: \<^verbatim>\<open>session.ws_connect\<close> raises, or the
  connection opens and delivers messages. Of a \<^verbatim>\<open>TEXT\<close> message the loop needs to know
  only whether decoding and handling it raises (\<^verbatim>\<open>msg.json()\<close> on a text that is not
  JSON, or an exception out of \<^verbatim>\<open>_handle_ws_message\<close>).
\<close>

datatype ws_msg = TEXT_handled | TEXT_raises exn | ERROR | CLOSED | OTHER

datatype connection = Refused exn | Opened "ws_msg list"

text \<open>The \<^verbatim>\<open>async for msg in ws\<close> loop of \<^verbatim>\<open>_ws_connect\<close>.\<close>

fun receive :: "ws_msg list \<Rightarrow> unit outcome" where
  "receive [] = Returns ()"
| "receive (TEXT_handled # ms) = receive ms"
| "receive (TEXT_raises e # ms) = Raises e"
| "receive (ERROR # ms) = Returns ()"
| "receive (CLOSED # ms) = Returns ()"
| "receive (OTHER # ms) = receive ms"

text \<open>\<^verbatim>\<open>AstrBookAdapter._ws_connect\<close>, as far as the loop that calls it can see.\<close>

definition ws_connect :: "connection \<Rightarrow> unit outcome" where
  "ws_connect c = (case c of Refused e \<Rightarrow> Raises e | Opened ms \<Rightarrow> receive ms)"

text \<open>\<^verbatim>\<open>self._reconnect_delay\<close> and \<^verbatim>\<open>self._max_reconnect_delay\<close>, set in
  \<^verbatim>\<open>__init__\<close> and never assigned again.\<close>

definition initial_reconnect_delay :: int where
  "initial_reconnect_delay = 5"

definition max_reconnect_delay :: int where
  "max_reconnect_delay = 60"

text \<open>One round of the \<^verbatim>\<open>while True\<close> of \<^verbatim>\<open>_ws_loop\<close>, from the local
  \<^verbatim>\<open>reconnect_delay\<close>: the time slept and the delay for the next round. The assignment
  after \<^verbatim>\<open>await self._ws_connect()\<close> runs only when that call returns; both
  \<^verbatim>\<open>except\<close> clauses only log.\<close>

definition ws_round :: "int \<Rightarrow> connection \<Rightarrow> int \<times> int" where
  "ws_round reconnect_delay c =
     (let d = (case ws_connect c of
                 Returns u \<Rightarrow> initial_reconnect_delay
               | _ \<Rightarrow> reconnect_delay)
      in (d, min (d * 2) max_reconnect_delay))"

text \<open>The loop never ends by itself. \<open>ws_rounds\<close> runs it for as many rounds as
  connections are given and returns the times slept, in order; \<open>ws_loop\<close> starts it as
  the source does.\<close>

fun ws_rounds :: "int \<Rightarrow> connection list \<Rightarrow> int list" where
  "ws_rounds reconnect_delay [] = []"
| "ws_rounds reconnect_delay (c # cs) =
     (let (slept, next_delay) = ws_round reconnect_delay c
      in slept # ws_rounds next_delay cs)"

definition ws_loop :: "connection list \<Rightarrow> int list" where
  "ws_loop cs = ws_rounds initial_reconnect_delay cs"

subsection \<open>Inbound messages\<close>

text \<open>\<^verbatim>\<open>data.get(key)\<close> and \<^verbatim>\<open>data.get(key, default)\<close> on a dict.\<close>

definition dict_get :: "(ustr \<times> pyval) list \<Rightarrow> ustr \<Rightarrow> pyval \<Rightarrow> pyval" where
  "dict_get kvs k dflt = (case map_of kvs k of None \<Rightarrow> dflt | Some v \<Rightarrow> v)"

text \<open>How an f-string prints a value of a decoded frame. \<open>rp\<close> is the library's
  \<^verbatim>\<open>repr\<close> of a float, a list or a dict, a parameter of the model. An int of a decoded
  frame has passed the JSON parser, so it is within the digit limit and prints.\<close>

definition py_str :: "(pyval \<Rightarrow> ustr) \<Rightarrow> pyval \<Rightarrow> ustr" where
  "py_str rp v =
     (case v of
        PStr s \<Rightarrow> s
      | PNone \<Rightarrow> asc ''None''
      | PBool b \<Rightarrow> (if b then asc ''True'' else asc ''False'')
      | PInt i \<Rightarrow> str_int i
      | _ \<Rightarrow> rp v)"

text \<open>\<^verbatim>\<open>content[:50]\<close>: a string and a list can be sliced; any other value raises
  (\<^verbatim>\<open>TypeError\<close>; for a dict, \<^verbatim>\<open>KeyError\<close> from Python 3.12 on).\<close>

definition slice50 :: "pyval \<Rightarrow> pyval outcome" where
  "slice50 v =
     (case v of
        PStr s \<Rightarrow> Returns (PStr (slice_to 50 s))
      | PList xs \<Rightarrow> Returns (PList (slice_to 50 xs))
      | _ \<Rightarrow> Raises TypeError)"

definition mention_text :: "ustr \<Rightarrow> ustr \<Rightarrow> ustr \<Rightarrow> ustr" where
  "mention_text from_username thread_title excerpt =
     [34987] @ asc '' @'' @ from_username @ asc '' '' @ [22312, 12298] @ thread_title
     @ [12299, 20013, 25552, 21450] @ asc '': '' @ excerpt @ asc ''...''"

definition reply_text :: "ustr \<Rightarrow> ustr \<Rightarrow> ustr \<Rightarrow> ustr" where
  "reply_text from_username thread_title excerpt =
     from_username @ asc '' '' @ [22238, 22797, 20102, 20320, 22312, 12298] @ thread_title
     @ [12299, 20013, 30340, 21457, 35328] @ asc '': '' @ excerpt @ asc ''...''"

text \<open>
  \<^verbatim>\<open>AstrBookAdapter._handle_notification\<close>, its statements up to and including the
  call of \<^verbatim>\<open>add_memory\<close>. The statements after it build the host event and commit it
  to the host queue; they do not touch the store.
\<close>

definition handle_notification ::
  "(pyval \<Rightarrow> ustr) \<Rightarrow> datetime \<Rightarrow> io_fault \<Rightarrow> (ustr \<times> pyval) list \<Rightarrow> forum_memory
     \<Rightarrow> forum_memory outcome" where
  "handle_notification rp now io data mem =
     (let thread_id = dict_get data (asc ''thread_id'') PNone;
          thread_title = dict_get data (asc ''thread_title'') (PStr []);
          from_username = dict_get data (asc ''from_username'') (PStr (asc ''unknown''));
          content = dict_get data (asc ''content'') (PStr []);
          msg_type = dict_get data (asc ''type'') PNone;
          meta = [(asc ''thread_id'', thread_id),
                  (asc ''thread_title'', thread_title),
                  (asc ''from_user'', from_username)]
      in case slice50 content of
           Raises e \<Rightarrow> Raises e
         | Unmodelled \<Rightarrow> Unmodelled
         | Returns excerpt \<Rightarrow>
             if msg_type = PStr (asc ''mention'')
             then add_memory now (asc ''mentioned'')
                    (mention_text (py_str rp from_username) (py_str rp thread_title)
                       (py_str rp excerpt))
                    (Some meta) io mem
             else add_memory now (asc ''replied'')
                    (reply_text (py_str rp from_username) (py_str rp thread_title)
                       (py_str rp excerpt))
                    (Some meta) io mem)"

text \<open>\<^verbatim>\<open>AstrBookAdapter._handle_new_thread\<close>\<close>

definition new_thread_text :: "ustr \<Rightarrow> ustr \<Rightarrow> ustr" where
  "new_thread_text thread_title author =
     [26377, 26032, 24086, 21457, 24067, 65306, 12298] @ thread_title @ [12299]
     @ asc ''by '' @ author"

definition handle_new_thread ::
  "(pyval \<Rightarrow> ustr) \<Rightarrow> datetime \<Rightarrow> io_fault \<Rightarrow> (ustr \<times> pyval) list \<Rightarrow> forum_memory
     \<Rightarrow> forum_memory outcome" where
  "handle_new_thread rp now io data mem =
     (let thread_id = dict_get data (asc ''thread_id'') PNone;
          thread_title = dict_get data (asc ''thread_title'') (PStr []);
          author = dict_get data (asc ''author'') (PStr (asc ''unknown''))
      in add_memory now (asc ''new_thread'')
           (new_thread_text (py_str rp thread_title) (py_str rp author))
           (Some [(asc ''thread_id'', thread_id),
                  (asc ''thread_title'', thread_title),
                  (asc ''author'', author)])
           io mem)"

text \<open>\<^verbatim>\<open>AstrBookAdapter._handle_ws_message\<close>, on a decoded frame that is a dict.\<close>

definition with_memory :: "adapter \<Rightarrow> forum_memory outcome \<Rightarrow> adapter outcome" where
  "with_memory a r =
     (case r of
        Returns mem \<Rightarrow> Returns (a\<lparr>memory := mem\<rparr>)
      | Raises e \<Rightarrow> Raises e
      | Unmodelled \<Rightarrow> Unmodelled)"

definition handle_ws_message ::
  "(pyval \<Rightarrow> ustr) \<Rightarrow> datetime \<Rightarrow> io_fault \<Rightarrow> (ustr \<times> pyval) list \<Rightarrow> adapter
     \<Rightarrow> adapter outcome" where
  "handle_ws_message rp now io data a =
     (let msg_type = dict_get data (asc ''type'') PNone
      in if msg_type = PStr (asc ''connected'')
         then Returns (a\<lparr>bot_user_id := dict_get data (asc ''user_id'') PNone\<rparr>)
         else if msg_type = PStr (asc ''pong'') then Returns a
         else if msg_type \<in> set [PStr (asc ''reply''), PStr (asc ''sub_reply''),
                                   PStr (asc ''mention'')]
         then with_memory a (handle_notification rp now io data (memory a))
         else if msg_type = PStr (asc ''new_thread'')
         then with_memory a (handle_new_thread rp now io data (memory a))
         else Returns a)"

section \<open>Sequences of calls and sample data\<close>

text \<open>One call of \<open>add_memory\<close>: the clock value it reads, its three arguments, and what
  the file system does to its write. \<open>item_of\<close> is the item the call constructs.\<close>

type_synonym append_call =
  "datetime \<times> ustr \<times> ustr \<times> (ustr \<times> pyval) list option \<times> io_fault"

definition item_of :: "append_call \<Rightarrow> memory_item" where
  "item_of c =
     (case c of (now, mtype, ctext, meta, io) \<Rightarrow>
        \<lparr>memory_type = mtype, content = ctext, timestamp = now,
         metadata = (case meta of None \<Rightarrow> [] | Some md \<Rightarrow> md)\<rparr>)"

text \<open>A sequence of \<open>add_memory\<close> calls on one store, in order.\<close>

fun add_memories :: "append_call list \<Rightarrow> forum_memory \<Rightarrow> forum_memory outcome" where
  "add_memories [] s = Returns s"
| "add_memories ((now, mtype, ctext, meta, io) # cs) s =
     (case add_memory now mtype ctext meta io s of
        Returns s' \<Rightarrow> add_memories cs s'
      | Raises e \<Rightarrow> Raises e
      | Unmodelled \<Rightarrow> Unmodelled)"

text \<open>Sample data: a clock value, ten items of which seven are about thread 42 (each
  with a float in its metadata), and a store that holds them.\<close>

definition example_time :: datetime where
  "example_time = \<lparr>year = 2025, month = 3, day = 9, hour = 21, minute = 5, second = 0,
                     microsecond = 0\<rparr>"

definition example_item :: "nat \<Rightarrow> int \<Rightarrow> memory_item" where
  "example_item k tid =
     \<lparr>memory_type = asc ''replied'', content = [65 + k],
      timestamp = example_time\<lparr>minute := k\<rparr>,
      metadata = [(asc ''thread_id'', PInt tid),
                  (asc ''score'', PFloat (Finite False 3 (- 1)))]\<rparr>"

definition ten_items :: "memory_item list" where
  "ten_items =
     [example_item 0 42, example_item 1 7, example_item 2 42, example_item 3 42,
      example_item 4 7, example_item 5 42, example_item 6 42, example_item 7 7,
      example_item 8 42, example_item 9 42]"

definition example_store :: forum_memory where
  "example_store = \<lparr>max_items = 50, memories = ten_items, storage = NoFile, errors = []\<rparr>"

definition empty_store :: "int \<Rightarrow> forum_memory" where
  "empty_store n = \<lparr>max_items = n, memories = [], storage = NoFile, errors = []\<rparr>"

text \<open>The store after one call \<^verbatim>\<open>add_memory("mentioned", "X", {})\<close> on the empty store
  of bound 50, and its one item.\<close>

definition x_item :: memory_item where
  "x_item =
     \<lparr>memory_type = asc ''mentioned'', content = asc ''X'', timestamp = example_time,
      metadata = []\<rparr>"

definition x_store :: forum_memory where
  "x_store =
     \<lparr>max_items = 50, memories = [x_item], storage = JsonFile (PList [to_dict x_item]),
      errors = []\<rparr>"

definition example_adapter :: adapter where
  "example_adapter =
     \<lparr>token = asc ''secret'', auto_browse = True, memory = example_store,
      bot_user_id = PNone, tasks = []\<rparr>"



text \<open>An item whose metadata holds an int of 4301 digits, and a store that holds it.\<close>

definition huge_int :: int where
  "huge_int = 10 ^ 4300"



text \<open>A storage file whose one entry has a timestamp that is no ISO-8601 text, and a
  library that reads no shape beyond the two of \<open>parse_iso\<close>.\<close>

definition garbage_file :: disk_file where
  "garbage_file =
     JsonFile (PList [PDict [(asc ''memory_type'', PStr (asc ''mentioned'')),
                             (asc ''content'', PStr (asc ''X'')),
                             (asc ''timestamp'', PStr (asc ''garbage'')),
                             (asc ''metadata'', PDict [])]])"

definition no_lib :: "ustr \<Rightarrow> datetime outcome" where
  "no_lib s = Raises ValueError"

text \<open>Two decoded frames: a mention whose content has 60 characters, and a reply whose
  content has two.\<close>

definition mention_frame :: "(ustr \<times> pyval) list" where
  "mention_frame =
     [(asc ''type'', PStr (asc ''mention'')),
      (asc ''thread_id'', PInt 42),
      (asc ''thread_title'', PStr (asc ''Hello'')),
      (asc ''from_user_id'', PInt 7),
      (asc ''from_username'', PStr (asc ''bob'')),
      (asc ''content'', PStr (replicate 60 97)),
      (asc ''reply_id'', PInt 1001)]"

definition short_reply_frame :: "(ustr \<times> pyval) list" where
  "short_reply_frame =
     [(asc ''type'', PStr (asc ''reply'')),
      (asc ''thread_id'', PInt 42),
      (asc ''thread_title'', PStr (asc ''Hello'')),
      (asc ''from_user_id'', PInt 7),
      (asc ''from_username'', PStr (asc ''bob'')),
      (asc ''content'', PStr (asc ''ok'')),
      (asc ''reply_id'', PInt 1002)]"

section \<open>Slices\<close>

lemma slice_from_neg: "0 < n \<Longrightarrow> slice_from (- n) xs = drop (length xs - nat n) xs"
  by (auto simp: slice_from_def slice_index_def Let_def max_def nat_diff_distrib'
      intro: arg_cong[where f="\<lambda>k. drop k xs"])

lemma slice_from_zero: "slice_from 0 xs = xs"
  by (simp add: slice_from_def slice_index_def)

lemma slice_to_pos: "0 \<le> n \<Longrightarrow> slice_to n xs = take (nat n) xs"
  by (auto simp: slice_to_def slice_index_def Let_def min_def)

section \<open>Writing the storage file\<close>

lemma encodable_zpad: "encodable_str (zpad w n)"
  by (induction w arbitrary: n) (auto simp: encodable_str_def)

lemma encodable_str_append: "encodable_str (a @ b) = (encodable_str a \<and> encodable_str b)"
  by (simp add: encodable_str_def)

lemma encodable_str_Cons: "encodable_str (c # s) = ((c < 55296 \<or> 57343 < c) \<and> encodable_str s)"
  by (simp add: encodable_str_def)

lemma encodable_isoformat: "encodable_str (isoformat t)"
  by (simp add: isoformat_def encodable_str_append encodable_str_Cons encodable_zpad)
    (simp add: encodable_str_def)

lemma encodable_asc: "encodable_str (asc s)"
  by (induction s) (auto simp: encodable_str_def asc_def intro: order_less_trans[where y=256])

lemma encodable_to_dict:
  "encodable (to_dict m) =
     (encodable_str (memory_type m) \<and> encodable_str (content m) \<and> encodable (PDict (metadata m)))"
  by (simp add: to_dict_def encodable_asc encodable_isoformat)

lemma first_fault_None: "(first_fault fs = None) = (\<forall>f\<in>set fs. f = None)"
  by (induction fs rule: first_fault.induct) auto

lemma dump_fault_None: "(dump_fault v = None) = (encodable v \<and> ints_printable v)"
proof (induction v)
  case (PList xs)
  then show ?case by (simp add: first_fault_None list_all_iff) blast
next
  case (PDict kvs)
  have ih: "(dump_fault v = None) = (encodable v \<and> ints_printable v)" if "(k, v) \<in> set kvs" for k v
    using PDict [of "(k, v)" v] that by simp
  have "(dump_fault (PDict kvs) = None)
          = (\<forall>(k, v) \<in> set kvs. str_fault k = None \<and> dump_fault v = None)"
    by (simp add: first_fault_None) force
  also have "\<dots> = (\<forall>(k, v) \<in> set kvs. encodable_str k \<and> encodable v \<and> ints_printable v)"
  proof -
    have "(str_fault k = None \<and> dump_fault v = None)
            = (encodable_str k \<and> encodable v \<and> ints_printable v)"
      if "(k, v) \<in> set kvs" for k v
      using ih [OF that] by (simp add: str_fault_def)
    then show ?thesis by (intro ball_cong refl) (auto split: prod.splits)
  qed
  also have "\<dots> = (encodable (PDict kvs) \<and> ints_printable (PDict kvs))"
    by (simp add: list_all_iff) force
  finally show ?case .
qed (simp_all add: str_fault_def)

lemma ints_printable_to_dict: "ints_printable (to_dict m) = ints_printable (PDict (metadata m))"
  by (simp add: to_dict_def)

lemma printable_int_small: "\<bar>i\<bar> < 1000 \<Longrightarrow> printable_int i"
proof -
  assume a: "\<bar>i\<bar> < 1000"
  have "(10::int) ^ 3 \<le> 10 ^ int_max_str_digits"
    by (rule power_increasing) (simp_all add: int_max_str_digits_def)
  then show ?thesis using a by (simp add: printable_int_def)
qed

lemma not_printable_huge: "\<not> printable_int huge_int"
proof -
  have "\<bar>(10::int) ^ 4300\<bar> = 10 ^ 4300"
    by (rule abs_of_nonneg) (rule zero_le_power, simp)
  then show ?thesis
    unfolding printable_int_def huge_int_def int_max_str_digits_def
    by (simp only: less_irrefl not_False_eq_True)
qed

lemma huge_int_ge: "1000 \<le> huge_int"
proof -
  have "(10::int) ^ 3 \<le> 10 ^ 4300" by (rule power_increasing) simp_all
  moreover have "(10::int) ^ 3 = 1000" by simp
  ultimately show ?thesis unfolding huge_int_def by (simp only:)
qed

lemma write_json_ok:
  "encodable doc \<Longrightarrow> ints_printable doc \<Longrightarrow>
     write_json NoFault doc old = (JsonFile doc, Returns ())"
  by (simp add: write_json_def dump_fault_None [THEN iffD2] del: dump_fault.simps)

lemma save_eq:
  "save io s =
     Returns (s\<lparr>storage := fst (write_json io (PList (map to_dict (memories s))) (storage s)),
               errors := errors s @
                 (case snd (write_json io (PList (map to_dict (memories s))) (storage s)) of
                    Raises e \<Rightarrow> [e] | _ \<Rightarrow> [])\<rparr>)"
  by (simp add: save_def Let_def write_json_def split: option.splits del: dump_fault.simps)

lemma save_returns:
  "\<exists>f es. save io s = Returns (s\<lparr>storage := f, errors := es\<rparr>)"
  using save_eq by blast

lemma add_memory_returns:
  "\<exists>f es. add_memory now mtype ctext meta io s =
     Returns (s\<lparr>memories := trim (max_items s) (memories s @ [item_of (now, mtype, ctext, meta, io)]),
               storage := f, errors := es\<rparr>)"
proof -
  let ?s = "s\<lparr>memories := trim (max_items s) (memories s @ [item_of (now, mtype, ctext, meta, io)])\<rparr>"
  have "add_memory now mtype ctext meta io s = save io ?s"
    by (simp add: add_memory_def item_of_def Let_def split: option.splits)
  moreover obtain f es where "save io ?s = Returns (?s\<lparr>storage := f, errors := es\<rparr>)"
    using save_returns by blast
  ultimately show ?thesis by auto
qed

section \<open>The bound of the store\<close>

lemma trim_pos: "0 < n \<Longrightarrow> trim n ms = drop (length ms - nat n) ms"
  by (auto simp: trim_def slice_from_neg)

lemma trim_trim:
  assumes "0 < n"
  shows "trim n (trim n ms @ [x]) = trim n (ms @ [x])"
proof (cases "length ms \<le> nat n")
  case True
  then show ?thesis using assms by (simp add: trim_pos)
next
  case False
  then have "length (drop (length ms - nat n) ms) = nat n" by simp
  moreover have "Suc (length ms) - nat n = Suc (length ms - nat n)" using False by simp
  ultimately show ?thesis using assms False by (simp add: trim_pos)
qed

lemma add_memories_fifo:
  assumes "0 < max_items s"
  shows "\<exists>s'. add_memories cs s = Returns s' \<and> max_items s' = max_items s \<and>
           memories s' = (if cs = [] then memories s
                          else trim (max_items s) (memories s @ map item_of cs))"
  using assms
proof (induction cs arbitrary: s)
  case Nil
  then show ?case by simp
next
  case (Cons c cs)
  obtain now mtype ctext meta io where c: "c = (now, mtype, ctext, meta, io)"
    by (cases c) auto
  obtain f es where s1: "add_memory now mtype ctext meta io s =
     Returns (s\<lparr>memories := trim (max_items s) (memories s @ [item_of c]), storage := f, errors := es\<rparr>)"
    using add_memory_returns c by blast
  let ?s1 = "s\<lparr>memories := trim (max_items s) (memories s @ [item_of c]), storage := f, errors := es\<rparr>"
  have pos: "0 < max_items ?s1" using Cons.prems by simp
  from Cons.IH[OF pos] obtain s' where
    s': "add_memories cs ?s1 = Returns s'" "max_items s' = max_items s"
        "memories s' = (if cs = [] then memories ?s1
                        else trim (max_items s) (memories ?s1 @ map item_of cs))"
    by auto
  have "trim (max_items s) (trim (max_items s) (memories s @ [item_of c]) @ map item_of cs)
        = trim (max_items s) (memories s @ item_of c # map item_of cs)" if "cs \<noteq> []"
    using that
  proof (induction cs rule: rev_induct)
    case Nil then show ?case by simp
  next
    case (snoc x xs)
    show ?case
    proof (cases "xs = []")
      case True
      then show ?thesis using trim_trim[OF Cons.prems, of "memories s @ [item_of c]" "item_of x"] by simp
    next
      case False
      have "trim (max_items s) (trim (max_items s) (memories s @ [item_of c]) @ map item_of (xs @ [x]))
           = trim (max_items s) (trim (max_items s) (trim (max_items s) (memories s @ [item_of c]) @ map item_of xs) @ [item_of x])"
        using trim_trim[OF Cons.prems, of "trim (max_items s) (memories s @ [item_of c]) @ map item_of xs" "item_of x"] by simp
      also have "\<dots> = trim (max_items s) (trim (max_items s) (memories s @ item_of c # map item_of xs) @ [item_of x])"
        using snoc.IH[OF False] by simp
      also have "\<dots> = trim (max_items s) (memories s @ item_of c # map item_of (xs @ [x]))"
        using trim_trim[OF Cons.prems, of "memories s @ item_of c # map item_of xs" "item_of x"] by simp
      finally show ?thesis .
    qed
  qed
  then show ?case using s' s1 c by auto
qed

lemma add_memories_exceeding:
  assumes pos: "0 < max_items s" and many: "max_items s < int (length cs)"
  shows "\<exists>s'. add_memories cs s = Returns s' \<and>
           int (length (memories s')) = max_items s \<and>
           memories s' = drop (length cs - nat (max_items s)) (map item_of cs)"
proof -
  from add_memories_fifo[OF pos, of cs] obtain s' where
    r: "add_memories cs s = Returns s'"
       "memories s' = (if cs = [] then memories s
                       else trim (max_items s) (memories s @ map item_of cs))"
    by blast
  have ne: "cs \<noteq> []" using pos many by auto
  have n: "nat (max_items s) < length cs" using pos many by linarith
  have "memories s' = drop (length (memories s) + length cs - nat (max_items s)) (memories s @ map item_of cs)"
    using r ne by (simp add: trim_pos[OF pos])
  also have "\<dots> = drop (length cs - nat (max_items s)) (map item_of cs)"
    using n by simp
  finally have m: "memories s' = drop (length cs - nat (max_items s)) (map item_of cs)" .
  moreover have "int (length (memories s')) = max_items s"
    using m n pos by simp
  ultimately show ?thesis using r by blast
qed

lemma trim_zero: "trim 0 ms = ms"
  by (simp add: trim_def slice_from_zero)

lemma add_memories_zero_bound:
  "max_items s = 0 \<Longrightarrow>
     \<exists>s'. add_memories cs s = Returns s' \<and> memories s' = memories s @ map item_of cs"
proof (induction cs arbitrary: s)
  case Nil
  then show ?case by simp
next
  case (Cons c cs)
  obtain now mtype ctext meta io where c: "c = (now, mtype, ctext, meta, io)"
    by (cases c) auto
  obtain f es where s1: "add_memory now mtype ctext meta io s =
     Returns (s\<lparr>memories := trim (max_items s) (memories s @ [item_of c]),
               storage := f, errors := es\<rparr>)"
    using add_memory_returns c by blast
  let ?s1 = "s\<lparr>memories := memories s @ [item_of c], storage := f, errors := es\<rparr>"
  have z: "max_items ?s1 = 0" using Cons.prems by simp
  from Cons.IH [OF z] obtain s' where
    "add_memories cs ?s1 = Returns s'" "memories s' = memories ?s1 @ map item_of cs"
    by blast
  then show ?case using s1 c Cons.prems by (simp add: trim_zero)
qed

text \<open>
  C1. With \<open>max_items = 0\<close> the trimming slice is \<^verbatim>\<open>self._memories[-0:]\<close>, which is
  the whole list: one call of \<open>add_memory\<close> on the empty store leaves a log of length 1,
  not of length 0, and by \<open>add_memories_zero_bound\<close> every further call adds one
  more. (For every bound of at least 1, \<open>add_memories_exceeding\<close> gives the bound:
  more calls than the bound leave exactly that many items, the most recent ones in the
  order of the calls.)
\<close>

theorem add_memory_zero_bound_keeps_item: "add_memory example_time (asc ''mentioned'') (asc ''X'') None NoFault (empty_store 0)
     = Returns \<lparr>max_items = 0,
                memories = [\<lparr>memory_type = asc ''mentioned'', content = asc ''X'',
                             timestamp = example_time, metadata = []\<rparr>],
                storage = JsonFile (PList [to_dict \<lparr>memory_type = asc ''mentioned'',
                             content = asc ''X'', timestamp = example_time, metadata = []\<rparr>]),
                errors = []\<rparr>"
  by (simp add: add_memory_def empty_store_def trim_def slice_from_zero save_eq write_json_ok
      encodable_to_dict ints_printable_to_dict encodable_asc Let_def
      del: dump_fault.simps)

section \<open>Reconnect delays\<close>

lemma ws_rounds_refused:
  assumes "0 \<le> d" and "d \<le> max_reconnect_delay"
  shows "ws_rounds d (map Refused es) =
           map (\<lambda>k. min (d * 2 ^ k) max_reconnect_delay) [0..<length es]"
  using assms
proof (induction es arbitrary: d)
  case Nil
  then show ?case by simp
next
  case (Cons e es)
  have step: "ws_round d (Refused e) = (d, min (d * 2) max_reconnect_delay)"
    by (simp add: ws_round_def ws_connect_def)
  have nn: "0 \<le> min (d * 2) max_reconnect_delay"
    using Cons.prems by (simp add: max_reconnect_delay_def)
  have shift: "[0..<length (e # es)] = 0 # map Suc [0..<length es]"
    by (simp add: upt_conv_Cons map_Suc_upt del: upt_Suc)
  have eq: "min (min (d * 2) max_reconnect_delay * 2 ^ k) max_reconnect_delay
            = min (d * 2 ^ Suc k) max_reconnect_delay" for k
  proof (cases "d * 2 \<le> max_reconnect_delay")
    case True
    then show ?thesis by (simp add: min_def mult.assoc)
  next
    case False
    have "(1::int) \<le> 2 ^ k" by simp
    then have a: "max_reconnect_delay \<le> max_reconnect_delay * 2 ^ k"
      by (simp add: max_reconnect_delay_def)
    have "d * 2 \<le> d * 2 * 2 ^ k" using Cons.prems \<open>1 \<le> 2 ^ k\<close>
      by (metis mult.right_neutral mult_left_mono mult_nonneg_nonneg zero_le_numeral)
    then have b: "max_reconnect_delay \<le> d * 2 ^ Suc k" using False by (simp add: mult.assoc)
    show ?thesis using False a b by (simp add: min_def)
  qed
  have le: "min (d * 2) max_reconnect_delay \<le> max_reconnect_delay" by simp
  show ?case
    unfolding shift
    using Cons.IH[OF nn le] step eq Cons.prems by (simp add: comp_def)
qed

lemma ws_round_reset:
  "receive ms = Returns () \<Longrightarrow>
     ws_round d (Opened ms) = (initial_reconnect_delay, 10)"
  by (simp add: ws_round_def ws_connect_def initial_reconnect_delay_def max_reconnect_delay_def)

lemma ws_loop_all_refused:
  "ws_loop (map Refused es) = map (\<lambda>k. min (5 * 2 ^ k) 60) [0..<length es]"
  using ws_rounds_refused [of initial_reconnect_delay es]
  by (simp add: ws_loop_def initial_reconnect_delay_def max_reconnect_delay_def)

text \<open>
  C3. Two refused connections, then a connection that opens and ends with an exception
  out of the handling of a \<^verbatim>\<open>TEXT\<close> message: the loop sleeps 5, 10 and then 20. The
  third delay is not reset to 5, because the assignment that resets it is skipped when
  \<^verbatim>\<open>_ws_connect\<close> raises.
\<close>

theorem ws_loop_no_reset_after_stream_exception:
  "ws_loop [Refused OSError, Refused OSError, Opened [TEXT_handled, TEXT_raises ValueError]]
     = [5, 10, 20]"
  by (simp add: ws_loop_def ws_round_def ws_connect_def initial_reconnect_delay_def
      max_reconnect_delay_def)

section \<open>Persistence\<close>


lemma digits_zpad: "list_all is_digit (zpad w n)"
  by (induction w arbitrary: n) (auto simp: is_digit_def)










lemma load_returns: "\<exists>r. load lib io s = Returns r"
  by (simp add: load_def split: outcome.splits)

lemma load_failure_empty:
  "storage s \<noteq> NoFile \<Longrightarrow> load_body lib io (storage s) = Raises e \<Longrightarrow>
     load lib io s = Returns (Some (s\<lparr>memories := [], errors := errors s @ [e]\<rparr>))"
  by (simp add: load_def)

lemma init_failure_empty:
  "f \<noteq> NoFile \<Longrightarrow> load_body lib io f = Raises e \<Longrightarrow>
     init True lib io f n
       = Returns (Some \<lparr>max_items = n, memories = [], storage = f, errors = [e]\<rparr>)"
  by (simp add: init_def load_def)

lemma clear_eq:
  "\<exists>f es. clear io s = Returns (s\<lparr>memories := [], storage := f, errors := es\<rparr>)"
  using save_returns[of io "s\<lparr>memories := []\<rparr>"] by (simp add: clear_def)

lemma take_num_Some:
  "take_num w s = Some (n, r) \<Longrightarrow> w \<le> length s \<and> list_all is_digit (take w s) \<and> r = drop w s"
  by (auto simp: take_num_def split: if_splits)

lemma expect_Some: "expect c s = Some r \<Longrightarrow> s = c # r"
  by (auto simp: expect_def split: list.splits if_splits)

lemma parse_iso_length:
  assumes "parse_iso s = Some t"
  shows "7 \<le> length s \<and> list_all is_digit (take 4 s)"
proof -
  have "\<exists>y s1 s2 mo s3. take_num 4 s = Some (y, s1) \<and> expect 45 s1 = Some s2
          \<and> take_num 2 s2 = Some (mo, s3)"
    using assms by (auto simp: parse_iso_def bind_eq_Some_conv)
  then obtain y s1 s2 mo s3 where
    a: "take_num 4 s = Some (y, s1)" and b: "expect 45 s1 = Some s2"
    and c: "take_num 2 s2 = Some (mo, s3)"
    by blast
  from take_num_Some [OF a] have a': "4 \<le> length s" "list_all is_digit (take 4 s)"
    "s1 = drop 4 s" by simp_all
  from expect_Some [OF b] have b': "s1 = 45 # s2" .
  from take_num_Some [OF c] have c': "2 \<le> length s2" by simp
  have "length s1 = length s - 4" using a' by simp
  then have "7 \<le> length s" using b' c' by simp
  then show ?thesis using a' by simp
qed

lemma fromisoformat_malformed:
  "length ts < 7 \<or> \<not> list_all is_digit (take 4 ts) \<Longrightarrow>
     fromisoformat lib ts = Raises ValueError"
  using parse_iso_length [of ts] by (auto simp: fromisoformat_def split: option.splits)

lemma from_dict_malformed_timestamp:
  assumes "map_of kvs (asc ''memory_type'') = Some mt"
      and "map_of kvs (asc ''content'') = Some c"
      and "map_of kvs (asc ''timestamp'') = Some (PStr ts)"
      and "length ts < 7 \<or> \<not> list_all is_digit (take 4 ts)"
  shows "from_dict lib (PDict kvs) = Raises ValueError"
  using assms
  by (simp add: from_dict_def subscript_def fromisoformat_val_def fromisoformat_malformed)

lemma save_failure_logged:
  "snd (write_json io (PList (map to_dict (memories s))) (storage s)) = Raises e \<Longrightarrow>
     save io s
       = Returns (s\<lparr>storage := fst (write_json io (PList (map to_dict (memories s))) (storage s)),
                   errors := errors s @ [e]\<rparr>)"
  by (simp add: save_eq)






text \<open>
  C7. \<open>add_memory\<close>, \<open>clear\<close>, \<open>load\<close> and, once its directory exists, the
  construction return for every log, every storage file, every version of the library and
  whatever the file system does to the transfer; none of them raises. A write that raises
  leaves the store with the new list and one more logged error. A failure of the
  \<^verbatim>\<open>try\<close> body of \<open>load\<close> (the file cannot be read, is not a JSON document, or an
  entry cannot be made into an item, such as one whose timestamp is no ISO-8601 text)
  leaves the empty list and one more logged error, also at construction.
\<close>

theorem persistence_failures_contained:
  "(\<forall>e. add_memory now mtype ctext meta io s \<noteq> Raises e)
   \<and> (\<forall>e. clear io s \<noteq> Raises e)
   \<and> (\<exists>f es. add_memory now mtype ctext meta io s =
         Returns (s\<lparr>memories := trim (max_items s)
                                   (memories s @ [item_of (now, mtype, ctext, meta, io)]),
                   storage := f, errors := es\<rparr>))
   \<and> (\<exists>f es. clear io s = Returns (s\<lparr>memories := [], storage := f, errors := es\<rparr>))
   \<and> (snd (write_json io (PList (map to_dict (memories s))) (storage s)) = Raises e' \<longrightarrow>
        save io s
          = Returns (s\<lparr>storage := fst (write_json io (PList (map to_dict (memories s)))
                                          (storage s)),
                      errors := errors s @ [e']\<rparr>))
   \<and> (\<exists>r. load lib io s = Returns r)
   \<and> (\<exists>r. init True lib io f0 n = Returns r)
   \<and> (storage s \<noteq> NoFile \<and> load_body lib io (storage s) = Raises e' \<longrightarrow>
        load lib io s = Returns (Some (s\<lparr>memories := [], errors := errors s @ [e']\<rparr>)))
   \<and> (f0 \<noteq> NoFile \<and> load_body lib io f0 = Raises e' \<longrightarrow>
        init True lib io f0 n
          = Returns (Some \<lparr>max_items = n, memories = [], storage = f0, errors = [e']\<rparr>))
   \<and> (io \<noteq> NoFault \<and> f0 \<noteq> NoFile \<longrightarrow>
        init True lib io f0 n
          = Returns (Some \<lparr>max_items = n, memories = [], storage = f0, errors = [OSError]\<rparr>))
   \<and> init True lib NoFault BadFile n
        = Returns (Some \<lparr>max_items = n, memories = [], storage = BadFile,
                          errors = [JSONDecodeError]\<rparr>)
   \<and> (map_of kvs (asc ''memory_type'') = Some mt \<and> map_of kvs (asc ''content'') = Some c
        \<and> map_of kvs (asc ''timestamp'') = Some (PStr ts)
        \<and> (length ts < 7 \<or> \<not> list_all is_digit (take 4 ts))
        \<and> ints_printable (PList (PDict kvs # ds)) \<longrightarrow>
        init True lib NoFault (JsonFile (PList (PDict kvs # ds))) n
          = Returns (Some \<lparr>max_items = n, memories = [],
                            storage = JsonFile (PList (PDict kvs # ds)),
                            errors = [ValueError]\<rparr>))"
proof -
  obtain f es where a: "add_memory now mtype ctext meta io s =
         Returns (s\<lparr>memories := trim (max_items s)
                                   (memories s @ [item_of (now, mtype, ctext, meta, io)]),
                   storage := f, errors := es\<rparr>)"
    using add_memory_returns by blast
  obtain f' es' where c: "clear io s = Returns (s\<lparr>memories := [], storage := f', errors := es'\<rparr>)"
    using clear_eq by blast
  have i: "\<exists>r. init True lib io f0 n = Returns r"
    using load_returns by (simp add: init_def)
  have o: "io \<noteq> NoFault \<and> f0 \<noteq> NoFile \<longrightarrow>
        init True lib io f0 n
          = Returns (Some \<lparr>max_items = n, memories = [], storage = f0, errors = [OSError]\<rparr>)"
    by (simp add: init_failure_empty load_body_def read_json_def)
  have b: "init True lib NoFault BadFile n
        = Returns (Some \<lparr>max_items = n, memories = [], storage = BadFile,
                          errors = [JSONDecodeError]\<rparr>)"
    by (simp add: init_failure_empty load_body_def read_json_def)
  have g: "map_of kvs (asc ''memory_type'') = Some mt \<and> map_of kvs (asc ''content'') = Some c
        \<and> map_of kvs (asc ''timestamp'') = Some (PStr ts)
        \<and> (length ts < 7 \<or> \<not> list_all is_digit (take 4 ts))
        \<and> ints_printable (PList (PDict kvs # ds)) \<longrightarrow>
        init True lib NoFault (JsonFile (PList (PDict kvs # ds))) n
          = Returns (Some \<lparr>max_items = n, memories = [],
                            storage = JsonFile (PList (PDict kvs # ds)),
                            errors = [ValueError]\<rparr>)"
  proof
    assume h: "map_of kvs (asc ''memory_type'') = Some mt \<and> map_of kvs (asc ''content'') = Some c
        \<and> map_of kvs (asc ''timestamp'') = Some (PStr ts)
        \<and> (length ts < 7 \<or> \<not> list_all is_digit (take 4 ts))
        \<and> ints_printable (PList (PDict kvs # ds))"
    then have "from_dict lib (PDict kvs) = Raises ValueError"
      using from_dict_malformed_timestamp by blast
    then have "load_body lib NoFault (JsonFile (PList (PDict kvs # ds))) = Raises ValueError"
      using h by (simp add: load_body_def read_json_def iterate_def del: ints_printable.simps)
    then show "init True lib NoFault (JsonFile (PList (PDict kvs # ds))) n
          = Returns (Some \<lparr>max_items = n, memories = [],
                            storage = JsonFile (PList (PDict kvs # ds)),
                            errors = [ValueError]\<rparr>)"
      by (simp add: init_failure_empty)
  qed
  show ?thesis
    using a c i o b g load_returns [of lib io s] load_failure_empty [of s lib io e']
      init_failure_empty [of f0 lib io e' n]
      save_failure_logged [of io s e']
    by auto
qed

theorem persistence_failures_contained_witness:
  "snd (write_json TransferFault (PList (map to_dict (memories example_store)))
          (storage example_store)) = Raises OSError
   \<and> save TransferFault example_store
       = Returns (example_store\<lparr>storage := BadFile, errors := [OSError]\<rparr>)
   \<and> storage (example_store\<lparr>storage := BadFile\<rparr>) \<noteq> NoFile
   \<and> load_body no_lib NoFault (storage (example_store\<lparr>storage := BadFile\<rparr>))
       = Raises JSONDecodeError
   \<and> load no_lib NoFault (example_store\<lparr>storage := BadFile\<rparr>)
       = Returns (Some (example_store\<lparr>storage := BadFile, memories := [],
                                      errors := [JSONDecodeError]\<rparr>))
   \<and> garbage_file \<noteq> NoFile
   \<and> load_body no_lib NoFault garbage_file = Raises ValueError
   \<and> init True no_lib NoFault garbage_file 50
       = Returns (Some \<lparr>max_items = 50, memories = [], storage = garbage_file,
                         errors = [ValueError]\<rparr>)
   \<and> TransferFault \<noteq> NoFault
   \<and> init True no_lib TransferFault garbage_file 50
       = Returns (Some \<lparr>max_items = 50, memories = [], storage = garbage_file,
                         errors = [OSError]\<rparr>)"
proof -
  note t = persistence_failures_contained
         [of example_time "asc ''mentioned''" "asc ''X''" None TransferFault example_store
             OSError no_lib garbage_file 50 "[]" PNone PNone "[]" "[]"]
  note u = persistence_failures_contained
         [of example_time "asc ''mentioned''" "asc ''X''" None NoFault
             "example_store\<lparr>storage := BadFile\<rparr>" JSONDecodeError no_lib BadFile 50
             "[]" PNone PNone "[]" "[]"]
  note v = persistence_failures_contained
         [of example_time "asc ''mentioned''" "asc ''X''" None NoFault example_store
             ValueError no_lib garbage_file 50 "[]" PNone PNone "[]" "[]"]
  have e: "encodable (PList (map to_dict (memories example_store)))"
    by (simp add: example_store_def ten_items_def example_item_def encodable_to_dict
        encodable_asc encodable_str_Cons)
      (simp add: encodable_str_def)
  have p: "ints_printable (PList (map to_dict (memories example_store)))"
    by (simp add: example_store_def ten_items_def example_item_def ints_printable_to_dict
        printable_int_small)
  have w: "write_json TransferFault (PList (map to_dict (memories example_store)))
          (storage example_store) = (BadFile, Raises OSError)"
    using e p by (simp add: write_json_def dump_fault_None [THEN iffD2] del: dump_fault.simps
        encodable.simps ints_printable.simps)
  have h1: "snd (write_json TransferFault (PList (map to_dict (memories example_store)))
          (storage example_store)) = Raises OSError"
    by (simp add: w)
  have "save TransferFault example_store
       = Returns (example_store\<lparr>storage :=
                    fst (write_json TransferFault (PList (map to_dict (memories example_store)))
                           (storage example_store)),
                  errors := errors example_store @ [OSError]\<rparr>)"
    using t h1 by blast
  then have s1: "save TransferFault example_store
       = Returns (example_store\<lparr>storage := BadFile, errors := [OSError]\<rparr>)"
    unfolding w by (simp add: example_store_def)
  have h2: "storage (example_store\<lparr>storage := BadFile\<rparr>) \<noteq> NoFile" by simp
  have h3: "load_body no_lib NoFault (storage (example_store\<lparr>storage := BadFile\<rparr>))
       = Raises JSONDecodeError"
    by (simp add: load_body_def read_json_def)
  have s2: "load no_lib NoFault (example_store\<lparr>storage := BadFile\<rparr>)
       = Returns (Some (example_store\<lparr>storage := BadFile, memories := [],
                                      errors := [JSONDecodeError]\<rparr>))"
    using u h2 h3 by (simp add: example_store_def)
  have h4: "garbage_file \<noteq> NoFile" by (simp add: garbage_file_def)
  have h5: "load_body no_lib NoFault garbage_file = Raises ValueError"
    by (simp add: load_body_def read_json_def iterate_def garbage_file_def
        from_dict_malformed_timestamp [where ts = "asc ''garbage''"] asc_def is_digit_def)
  have s3: "init True no_lib NoFault garbage_file 50
       = Returns (Some \<lparr>max_items = 50, memories = [], storage = garbage_file,
                         errors = [ValueError]\<rparr>)"
    using v h4 h5 by blast
  have h6: "TransferFault \<noteq> NoFault" by simp
  have s4: "init True no_lib TransferFault garbage_file 50
       = Returns (Some \<lparr>max_items = 50, memories = [], storage = garbage_file,
                         errors = [OSError]\<rparr>)"
    using t h4 h6 by blast
  show ?thesis using h1 s1 h2 h3 s2 h4 h5 s3 h6 s4 by blast
qed

section \<open>The query interface\<close>



section \<open>Summaries\<close>

lemma zpad_2: "zpad 2 n = [48 + n div 10 mod 10, 48 + n mod 10]"
  by (simp add: numeral_2_eq_2)

lemma zpad_no_lf: "10 \<notin> set (zpad w n)"
  using digits_zpad[of w n] by (auto simp: list_all_iff is_digit_def)

lemma emoji_no_lf: "10 \<notin> set (get_type_emoji t)"
  by (simp add: get_type_emoji_def emojis_def asc_def)

lemma header_no_lf: "10 \<notin> set summary_header"
  by (simp add: summary_header_def asc_def)

lemma summary_line_no_lf: "10 \<notin> set (content m) \<Longrightarrow> 10 \<notin> set (summary_line m)"
  by (simp add: summary_line_def strftime_md_hm_def zpad_no_lf emoji_no_lf asc_def)

lemma line_count_join_nl:
  "ls \<noteq> [] \<Longrightarrow> list_all (\<lambda>l. 10 \<notin> set l) ls \<Longrightarrow> line_count (join_nl ls) = length ls"
proof (induction ls rule: join_nl.induct)
  case 1
  then show ?case by simp
next
  case (2 l)
  then have "filter (\<lambda>c. c = 10) l = []" by (auto simp: filter_empty_conv)
  then show ?case by (simp add: line_count_def)
next
  case (3 l v va)
  then have "filter (\<lambda>c. c = 10) l = []" by (auto simp: filter_empty_conv)
  then show ?case using 3 by (simp add: line_count_def)
qed

lemma get_summary_pos:
  "0 < l \<Longrightarrow> get_summary s l =
     (if memories s = [] then no_activity
      else join_nl (summary_header # map summary_line (take (nat l) (rev (memories s)))))"
  by (auto simp: get_summary_def get_memories_def Let_def slice_to_pos)

lemma drop7_of_10:
  assumes "length xs = 10"
  shows "drop 7 xs = [xs ! 7, xs ! 8, xs ! 9]"
proof -
  have "drop 7 xs = xs ! 7 # drop 8 xs" using assms by (simp add: Cons_nth_drop_Suc[symmetric])
  also have "drop 8 xs = xs ! 8 # drop 9 xs" using assms by (simp add: Cons_nth_drop_Suc[symmetric])
  also have "drop 9 xs = xs ! 9 # drop 10 xs" using assms by (simp add: Cons_nth_drop_Suc[symmetric])
  finally show ?thesis using assms by simp
qed

lemma rev_take3:
  assumes "length xs = 10"
  shows "take 3 (rev xs) = [xs ! 9, xs ! 8, xs ! 7]"
proof -
  have "take 3 (rev xs) = rev (drop 7 xs)" using assms by (simp add: take_rev)
  then show ?thesis using drop7_of_10[OF assms] by simp
qed

lemma get_summary_10_3:
  assumes "length (memories s) = 10"
  shows "get_summary s 3 = join_nl [summary_header, summary_line (memories s ! 9),
           summary_line (memories s ! 8), summary_line (memories s ! 7)]"
proof -
  have "memories s \<noteq> []" using assms by auto
  then show ?thesis using rev_take3[OF assms] by (simp add: get_summary_pos)
qed

lemma header_ne_no_activity: "summary_header @ r \<noteq> no_activity"
  by (simp add: summary_header_def no_activity_def)

lemma line_count_summary:
  assumes "list_all (\<lambda>m. 10 \<notin> set (content m)) ms"
  shows "line_count (join_nl (summary_header # map summary_line ms)) = Suc (length ms)"
proof -
  have "list_all (\<lambda>l. 10 \<notin> set l) (summary_header # map summary_line ms)"
    using assms by (auto simp: list_all_iff header_no_lf summary_line_no_lf)
  then show ?thesis using line_count_join_nl[of "summary_header # map summary_line ms"] by simp
qed

lemma get_summary_one:
  "memories s = [m] \<Longrightarrow> get_summary s 1 = join_nl [summary_header, summary_line m]"
  by (simp add: get_summary_pos)

lemma example_contents_no_lf: "list_all (\<lambda>m. 10 \<notin> set (content m)) ten_items"
  by (simp add: ten_items_def example_item_def)

text \<open>
  The text that \<open>get_summary\<close> returns for three of ten items has four lines, and for
  the one item of a one-item store two lines: the first line is the header.
\<close>

theorem get_summary_has_header_line:
  "length (memories example_store) = 10
   \<and> line_count (get_summary example_store 3) = 4
   \<and> line_count (get_summary (example_store\<lparr>memories := [example_item 0 42]\<rparr>) 1) = 2"
proof -
  have l: "length (memories example_store) = 10"
    by (simp add: example_store_def ten_items_def)
  have "line_count (get_summary example_store 3)
          = line_count (join_nl (summary_header # map summary_line
              [memories example_store ! 9, memories example_store ! 8, memories example_store ! 7]))"
    by (simp add: get_summary_10_3 [OF l])
  also have "\<dots> = 4"
    by (subst line_count_summary) (simp_all add: example_store_def ten_items_def example_item_def)
  finally have a: "line_count (get_summary example_store 3) = 4" .
  have "line_count (get_summary (example_store\<lparr>memories := [example_item 0 42]\<rparr>) 1)
          = line_count (join_nl (summary_header # map summary_line [example_item 0 42]))"
    by (simp add: get_summary_one)
  also have "\<dots> = 2"
    by (subst line_count_summary) (simp_all add: example_item_def)
  finally show ?thesis using l a by simp
qed

text \<open>
  C5. \<open>get_summary\<close> with limit 3 on a store of ten items returns the header line
  followed by exactly three entries, one per item, for the newest three items from newest
  to oldest, each with the marker of its kind, its time and its content; these are four
  lines when no content holds a line feed. On a store of exactly one item,
  \<open>get_summary\<close> with limit 1 returns the header line followed by the entry of that
  item (two lines when its content holds no line feed), which is not the message that an
  empty store gives.
\<close>

theorem get_summary_header_and_entries:
  "(length (memories s) = 10 \<longrightarrow>
      get_summary s 3 =
        [25105, 26368, 36817, 22312] @ asc '' AstrBook ''
        @ [35770, 22363, 30340, 27963, 21160, 65306]
        @ [10] @ asc ''  '' @ get_type_emoji (memory_type (memories s ! 9)) @ asc '' [''
        @ strftime_md_hm (timestamp (memories s ! 9)) @ asc ''] '' @ content (memories s ! 9)
        @ [10] @ asc ''  '' @ get_type_emoji (memory_type (memories s ! 8)) @ asc '' [''
        @ strftime_md_hm (timestamp (memories s ! 8)) @ asc ''] '' @ content (memories s ! 8)
        @ [10] @ asc ''  '' @ get_type_emoji (memory_type (memories s ! 7)) @ asc '' [''
        @ strftime_md_hm (timestamp (memories s ! 7)) @ asc ''] '' @ content (memories s ! 7)
      \<and> (list_all (\<lambda>m. 10 \<notin> set (content m)) (memories s) \<longrightarrow>
            line_count (get_summary s 3) = 4))
   \<and> (memories s1 = [m] \<longrightarrow>
        get_summary s1 1 =
          [25105, 26368, 36817, 22312] @ asc '' AstrBook ''
          @ [35770, 22363, 30340, 27963, 21160, 65306]
          @ [10] @ asc ''  '' @ get_type_emoji (memory_type m) @ asc '' [''
          @ strftime_md_hm (timestamp m) @ asc ''] '' @ content m
        \<and> get_summary s1 1
            \<noteq> [26368, 36817, 27809, 26377, 35770, 22363, 27963, 21160, 35760, 24405, 12290]
        \<and> (10 \<notin> set (content m) \<longrightarrow> line_count (get_summary s1 1) = 2))
   \<and> (memories s0 = [] \<longrightarrow>
        get_summary s0 l
          = [26368, 36817, 27809, 26377, 35770, 22363, 27963, 21160, 35760, 24405, 12290])"
proof -
  have a: "get_summary s 3 =
        [25105, 26368, 36817, 22312] @ asc '' AstrBook ''
        @ [35770, 22363, 30340, 27963, 21160, 65306]
        @ [10] @ asc ''  '' @ get_type_emoji (memory_type (memories s ! 9)) @ asc '' [''
        @ strftime_md_hm (timestamp (memories s ! 9)) @ asc ''] '' @ content (memories s ! 9)
        @ [10] @ asc ''  '' @ get_type_emoji (memory_type (memories s ! 8)) @ asc '' [''
        @ strftime_md_hm (timestamp (memories s ! 8)) @ asc ''] '' @ content (memories s ! 8)
        @ [10] @ asc ''  '' @ get_type_emoji (memory_type (memories s ! 7)) @ asc '' [''
        @ strftime_md_hm (timestamp (memories s ! 7)) @ asc ''] '' @ content (memories s ! 7)"
    if "length (memories s) = 10"
    by (simp add: get_summary_10_3 [OF that] summary_header_def summary_line_def)
  have b: "line_count (get_summary s 3) = 4"
    if l: "length (memories s) = 10" and n: "list_all (\<lambda>m. 10 \<notin> set (content m)) (memories s)"
  proof -
    have "list_all (\<lambda>m. 10 \<notin> set (content m)) [memories s ! 9, memories s ! 8, memories s ! 7]"
      using l n by (simp add: list_all_iff)
    from line_count_summary [OF this] show ?thesis using get_summary_10_3 [OF l] by simp
  qed
  have c: "get_summary s1 1 =
          [25105, 26368, 36817, 22312] @ asc '' AstrBook ''
          @ [35770, 22363, 30340, 27963, 21160, 65306]
          @ [10] @ asc ''  '' @ get_type_emoji (memory_type m) @ asc '' [''
          @ strftime_md_hm (timestamp m) @ asc ''] '' @ content m"
    if "memories s1 = [m]"
    by (simp add: get_summary_one [OF that] summary_header_def summary_line_def)
  have d: "get_summary s1 1
            \<noteq> [26368, 36817, 27809, 26377, 35770, 22363, 27963, 21160, 35760, 24405, 12290]"
    if "memories s1 = [m]"
    unfolding c [OF that] by simp
  have e: "line_count (get_summary s1 1) = 2" if "memories s1 = [m]" and "10 \<notin> set (content m)"
    using get_summary_one [OF that(1)] line_count_summary [of "[m]"] that(2) by simp
  have f: "get_summary s0 l
          = [26368, 36817, 27809, 26377, 35770, 22363, 27963, 21160, 35760, 24405, 12290]"
    if "memories s0 = []"
    using that by (simp add: get_summary_def get_memories_def no_activity_def slice_to_def)
  show ?thesis using a b c d e f by blast
qed

theorem get_summary_header_and_entries_witness:
  "length (memories example_store) = 10
   \<and> get_summary example_store 3
       = [25105, 26368, 36817, 22312] @ asc '' AstrBook ''
         @ [35770, 22363, 30340, 27963, 21160, 65306]
         @ [10] @ asc ''  '' @ [128172] @ asc '' [03-09 21:09] J''
         @ [10] @ asc ''  '' @ [128172] @ asc '' [03-09 21:08] I''
         @ [10] @ asc ''  '' @ [128172] @ asc '' [03-09 21:07] H''
   \<and> list_all (\<lambda>m. 10 \<notin> set (content m)) (memories example_store)
   \<and> line_count (get_summary example_store 3) = 4
   \<and> add_memory example_time (asc ''mentioned'') (asc ''X'') (Some []) NoFault (empty_store 50)
       = Returns x_store
   \<and> memories x_store = [x_item]
   \<and> get_summary x_store 1
       = [25105, 26368, 36817, 22312] @ asc '' AstrBook ''
         @ [35770, 22363, 30340, 27963, 21160, 65306]
         @ [10] @ asc ''  '' @ [128226] @ asc '' [03-09 21:05] X''
   \<and> get_summary x_store 1
       \<noteq> [26368, 36817, 27809, 26377, 35770, 22363, 27963, 21160, 35760, 24405, 12290]
   \<and> 10 \<notin> set (content x_item)
   \<and> line_count (get_summary x_store 1) = 2
   \<and> memories (empty_store 50) = []
   \<and> get_summary (empty_store 50) 1
       = [26368, 36817, 27809, 26377, 35770, 22363, 27963, 21160, 35760, 24405, 12290]"
proof -
  note t = get_summary_header_and_entries [of example_store x_store x_item "empty_store 50" 1]
  have l: "length (memories example_store) = 10"
    by (simp add: example_store_def ten_items_def)
  have n: "list_all (\<lambda>m. 10 \<notin> set (content m)) (memories example_store)"
    by (simp add: example_store_def example_contents_no_lf)
  have o: "memories x_store = [x_item]" by (simp add: x_store_def)
  have x: "10 \<notin> set (content x_item)" by (simp add: x_item_def asc_def)
  have z: "memories (empty_store 50) = []" by (simp add: empty_store_def)
  have r: "add_memory example_time (asc ''mentioned'') (asc ''X'') (Some []) NoFault
             (empty_store 50) = Returns x_store"
    by (simp add: add_memory_def empty_store_def trim_def save_eq write_json_ok
        encodable_to_dict ints_printable_to_dict encodable_asc Let_def x_store_def x_item_def
        del: dump_fault.simps)
  have a: "get_summary example_store 3
       = [25105, 26368, 36817, 22312] @ asc '' AstrBook ''
         @ [35770, 22363, 30340, 27963, 21160, 65306]
         @ [10] @ asc ''  '' @ [128172] @ asc '' [03-09 21:09] J''
         @ [10] @ asc ''  '' @ [128172] @ asc '' [03-09 21:08] I''
         @ [10] @ asc ''  '' @ [128172] @ asc '' [03-09 21:07] H''"
    using t l
    by (simp add: example_store_def ten_items_def example_item_def example_time_def
        strftime_md_hm_def zpad_2 get_type_emoji_def emojis_def asc_def)
  have b: "line_count (get_summary example_store 3) = 4"
    using t l n by blast
  have c: "get_summary x_store 1
       = [25105, 26368, 36817, 22312] @ asc '' AstrBook ''
         @ [35770, 22363, 30340, 27963, 21160, 65306]
         @ [10] @ asc ''  '' @ [128226] @ asc '' [03-09 21:05] X''"
    using t o
    by (simp add: x_item_def example_time_def strftime_md_hm_def zpad_2 get_type_emoji_def
        emojis_def asc_def)
  have d: "get_summary x_store 1
       \<noteq> [26368, 36817, 27809, 26377, 35770, 22363, 27963, 21160, 35760, 24405, 12290]"
    using t o by blast
  have e: "line_count (get_summary x_store 1) = 2"
    using t o x by blast
  have f: "get_summary (empty_store 50) 1
       = [26368, 36817, 27809, 26377, 35770, 22363, 27963, 21160, 35760, 24405, 12290]"
    using t z by blast
  show ?thesis using l a n b r o c d x e z f by blast
qed

section \<open>Thread context\<close>

lemma about_thread_example: "about_thread t (example_item k u) = (u = t)"
  by (simp add: about_thread_def example_item_def eq_int_def asc_def)

lemma get_context_for_thread_eq:
  "printable_int tid \<Longrightarrow>
   get_context_for_thread s tid =
     (if filter (about_thread tid) (memories s) = []
      then Returns (no_thread_activity (str_int tid))
      else Returns (join_nl (thread_header (str_int tid) # map thread_line
             (drop (length (filter (about_thread tid) (memories s)) - 5)
                (filter (about_thread tid) (memories s))))))"
  by (simp add: get_context_for_thread_def print_int_def Let_def slice_from_neg)

lemma get_context_for_thread_raises:
  "\<not> printable_int tid \<Longrightarrow> get_context_for_thread s tid = Raises ValueError"
  by (simp add: get_context_for_thread_def print_int_def Let_def)

lemma last_five: "rev (take 5 (rev xs)) = drop (length xs - 5) xs"
  by (simp add: take_rev)

lemma filter_example_42:
  "filter (about_thread 42) (memories example_store)
     = [example_item 0 42, example_item 2 42, example_item 3 42, example_item 5 42,
        example_item 6 42, example_item 8 42, example_item 9 42]"
  by (simp add: example_store_def ten_items_def about_thread_example)

lemma filter_example_5: "filter (about_thread 5) (memories example_store) = []"
  by (simp add: example_store_def ten_items_def about_thread_example)

lemma huge_not_small: "huge_int \<noteq> 42 \<and> huge_int \<noteq> 7"
  using huge_int_ge by auto

text \<open>
  A thread id of 4301 digits, about which the store holds nothing: printing the id
  raises \<^verbatim>\<open>ValueError\<close>, and no message is returned.
\<close>

theorem get_context_for_thread_huge_id_raises:
  "filter (about_thread huge_int) (memories example_store) = []
   \<and> get_context_for_thread example_store huge_int = Raises ValueError"
  using huge_not_small
  by (simp add: get_context_for_thread_raises not_printable_huge example_store_def
      ten_items_def about_thread_example)

text \<open>
  C6. For a thread id within the digit limit of the interpreter: when no item is about
  the thread, \<open>get_context_for_thread\<close> returns the fixed message with that id.
  Otherwise it returns the header with that id, followed by one line, with time and
  content, for each of the five most recent items about the thread (all of them when there
  are fewer), oldest first; with seven such items in the store, whatever else the store
  holds, these are the last five of the seven.
\<close>

theorem get_context_for_thread_last_five:
  assumes "printable_int tid"
  shows
  "(filter (about_thread tid) (memories s) = [] \<longrightarrow>
      get_context_for_thread s tid
        = Returns ([27809, 26377, 19982, 24086, 23376] @ asc '' #'' @ str_int tid @ asc '' ''
                   @ [30456, 20851, 30340, 27963, 21160, 35760, 24405, 12290]))
   \<and> (length (filter (about_thread tid) (memories s)) = 7 \<longrightarrow>
        get_context_for_thread s tid
          = Returns (join_nl
              (([19982, 24086, 23376] @ asc '' #'' @ str_int tid @ asc '' ''
                @ [30456, 20851, 30340, 27963, 21160, 65306])
               # map (\<lambda>m. asc ''  - ['' @ strftime_md_hm (timestamp m) @ asc ''] ''
                               @ content m)
                   (drop 2 (filter (about_thread tid) (memories s))))))
   \<and> (filter (about_thread tid) (memories s) \<noteq> [] \<longrightarrow>
        get_context_for_thread s tid
          = Returns (join_nl
              (([19982, 24086, 23376] @ asc '' #'' @ str_int tid @ asc '' ''
                @ [30456, 20851, 30340, 27963, 21160, 65306])
               # map (\<lambda>m. asc ''  - ['' @ strftime_md_hm (timestamp m) @ asc ''] ''
                               @ content m)
                   (rev (take 5 (rev (filter (about_thread tid) (memories s))))))))"
proof -
  let ?ms = "filter (about_thread tid) (memories s)"
  have tl: "thread_line = (\<lambda>m. asc ''  - ['' @ strftime_md_hm (timestamp m) @ asc ''] ''
                               @ content m)"
    by (rule ext) (simp add: thread_line_def)
  note eq = get_context_for_thread_eq [OF assms, of s, unfolded tl thread_header_def
      no_thread_activity_def]
  have a: "?ms = [] \<longrightarrow> get_context_for_thread s tid
        = Returns ([27809, 26377, 19982, 24086, 23376] @ asc '' #'' @ str_int tid @ asc '' ''
                   @ [30456, 20851, 30340, 27963, 21160, 35760, 24405, 12290])"
    using eq by simp
  have b: "length ?ms = 7 \<longrightarrow> get_context_for_thread s tid
          = Returns (join_nl
              (([19982, 24086, 23376] @ asc '' #'' @ str_int tid @ asc '' ''
                @ [30456, 20851, 30340, 27963, 21160, 65306])
               # map (\<lambda>m. asc ''  - ['' @ strftime_md_hm (timestamp m) @ asc ''] ''
                               @ content m) (drop 2 ?ms)))"
  proof
    assume l: "length ?ms = 7"
    then have "?ms \<noteq> []" by auto
    then show "get_context_for_thread s tid
          = Returns (join_nl
              (([19982, 24086, 23376] @ asc '' #'' @ str_int tid @ asc '' ''
                @ [30456, 20851, 30340, 27963, 21160, 65306])
               # map (\<lambda>m. asc ''  - ['' @ strftime_md_hm (timestamp m) @ asc ''] ''
                               @ content m) (drop 2 ?ms)))"
      using eq l by simp
  qed
  have c: "?ms \<noteq> [] \<longrightarrow> get_context_for_thread s tid
          = Returns (join_nl
              (([19982, 24086, 23376] @ asc '' #'' @ str_int tid @ asc '' ''
                @ [30456, 20851, 30340, 27963, 21160, 65306])
               # map (\<lambda>m. asc ''  - ['' @ strftime_md_hm (timestamp m) @ asc ''] ''
                               @ content m) (rev (take 5 (rev ?ms)))))"
    using eq by (simp add: last_five)
  show ?thesis using a b c by blast
qed

theorem get_context_for_thread_last_five_witness:
  "printable_int 5 \<and> printable_int 42
   \<and> filter (about_thread 5) (memories example_store) = []
   \<and> get_context_for_thread example_store 5
       = Returns ([27809, 26377, 19982, 24086, 23376] @ asc '' #5 ''
                  @ [30456, 20851, 30340, 27963, 21160, 35760, 24405, 12290])
   \<and> length (memories example_store) = 10
   \<and> length (filter (about_thread 42) (memories example_store)) = 7
   \<and> get_context_for_thread example_store 42
       = Returns ([19982, 24086, 23376] @ asc '' #42 ''
                  @ [30456, 20851, 30340, 27963, 21160, 65306]
                  @ [10] @ asc ''  - [03-09 21:03] D''
                  @ [10] @ asc ''  - [03-09 21:05] F''
                  @ [10] @ asc ''  - [03-09 21:06] G''
                  @ [10] @ asc ''  - [03-09 21:08] I''
                  @ [10] @ asc ''  - [03-09 21:09] J'')"
proof -
  have p5: "printable_int 5" and p42: "printable_int 42"
    by (simp_all add: printable_int_small)
  have l: "length (memories example_store) = 10"
    by (simp add: example_store_def ten_items_def)
  have n: "length (filter (about_thread 42) (memories example_store)) = 7"
    by (simp add: filter_example_42)
  have a: "get_context_for_thread example_store 5
       = Returns ([27809, 26377, 19982, 24086, 23376] @ asc '' #'' @ str_int 5 @ asc '' ''
                  @ [30456, 20851, 30340, 27963, 21160, 35760, 24405, 12290])"
    using get_context_for_thread_last_five [OF p5, of example_store] filter_example_5 by blast
  have b: "get_context_for_thread example_store 42
          = Returns (join_nl
              (([19982, 24086, 23376] @ asc '' #'' @ str_int 42 @ asc '' ''
                @ [30456, 20851, 30340, 27963, 21160, 65306])
               # map (\<lambda>m. asc ''  - ['' @ strftime_md_hm (timestamp m) @ asc ''] ''
                               @ content m)
                   (drop 2 (filter (about_thread 42) (memories example_store)))))"
    using get_context_for_thread_last_five [OF p42, of example_store] n by blast
  have a': "get_context_for_thread example_store 5
       = Returns ([27809, 26377, 19982, 24086, 23376] @ asc '' #5 ''
                  @ [30456, 20851, 30340, 27963, 21160, 35760, 24405, 12290])"
    unfolding a by (simp add: str_int_def asc_def)
  have b': "get_context_for_thread example_store 42
       = Returns ([19982, 24086, 23376] @ asc '' #42 ''
                  @ [30456, 20851, 30340, 27963, 21160, 65306]
                  @ [10] @ asc ''  - [03-09 21:03] D''
                  @ [10] @ asc ''  - [03-09 21:05] F''
                  @ [10] @ asc ''  - [03-09 21:06] G''
                  @ [10] @ asc ''  - [03-09 21:08] I''
                  @ [10] @ asc ''  - [03-09 21:09] J'')"
    unfolding b
    by (simp add: filter_example_42 example_item_def example_time_def strftime_md_hm_def
        zpad_2 str_int_def asc_def)
  show ?thesis using p5 p42 filter_example_5 a' l n b' by blast
qed

section \<open>Notifications\<close>

lemma trim_last:
  assumes "0 \<le> n"
  shows "trim n (ms @ [x]) \<noteq> [] \<and> last (trim n (ms @ [x])) = x"
proof (cases "n = 0")
  case True
  then show ?thesis by (simp add: trim_def slice_from_zero)
next
  case False
  then have pos: "0 < n" using assms by simp
  have "Suc (length ms) - nat n \<le> length ms" using pos by linarith
  then have "drop (Suc (length ms) - nat n) (ms @ [x]) = drop (Suc (length ms) - nat n) ms @ [x]"
    by simp
  then show ?thesis by (simp add: trim_pos [OF pos])
qed

lemma dict_get_Some: "map_of data k = Some v \<Longrightarrow> dict_get data k d = v"
  by (simp add: dict_get_def)

lemma handle_notification_mention:
  assumes "map_of data (asc ''type'') = Some (PStr (asc ''mention''))"
      and "map_of data (asc ''content'') = Some (PStr c)"
  shows "handle_notification rp now io data mem =
           add_memory now (asc ''mentioned'')
             (mention_text (py_str rp (dict_get data (asc ''from_username'') (PStr (asc ''unknown''))))
                (py_str rp (dict_get data (asc ''thread_title'') (PStr []))) (take 50 c))
             (Some [(asc ''thread_id'', dict_get data (asc ''thread_id'') PNone),
                    (asc ''thread_title'', dict_get data (asc ''thread_title'') (PStr [])),
                    (asc ''from_user'', dict_get data (asc ''from_username'') (PStr (asc ''unknown'')))])
             io mem"
  using assms
  by (simp add: handle_notification_def Let_def dict_get_Some slice50_def slice_to_pos py_str_def)

lemma handle_notification_reply:
  assumes "map_of data (asc ''type'') = Some (PStr k)" and "k \<noteq> asc ''mention''"
      and "map_of data (asc ''content'') = Some (PStr c)"
  shows "handle_notification rp now io data mem =
           add_memory now (asc ''replied'')
             (reply_text (py_str rp (dict_get data (asc ''from_username'') (PStr (asc ''unknown''))))
                (py_str rp (dict_get data (asc ''thread_title'') (PStr []))) (take 50 c))
             (Some [(asc ''thread_id'', dict_get data (asc ''thread_id'') PNone),
                    (asc ''thread_title'', dict_get data (asc ''thread_title'') (PStr [])),
                    (asc ''from_user'', dict_get data (asc ''from_username'') (PStr (asc ''unknown'')))])
             io mem"
  using assms
  by (simp add: handle_notification_def Let_def dict_get_Some slice50_def slice_to_pos py_str_def)

lemma handle_ws_message_notification:
  assumes "map_of data (asc ''type'') = Some (PStr k)"
      and "k = asc ''mention'' \<or> k = asc ''reply'' \<or> k = asc ''sub_reply''"
  shows "handle_ws_message rp now io data a =
           with_memory a (handle_notification rp now io data (memory a))"
  using assms
  by (auto simp: handle_ws_message_def Let_def dict_get_Some asc_def)

lemma with_memory_add:
  "\<exists>f es. with_memory a (add_memory now mtype ctext (Some md) io (memory a)) =
     Returns (a\<lparr>memory := (memory a)\<lparr>memories :=
        trim (max_items (memory a))
          (memories (memory a) @
             [\<lparr>memory_type = mtype, content = ctext, timestamp = now, metadata = md\<rparr>]),
        storage := f, errors := es\<rparr>\<rparr>)"
proof -
  obtain f es where "add_memory now mtype ctext (Some md) io (memory a) =
     Returns ((memory a)\<lparr>memories := trim (max_items (memory a))
        (memories (memory a) @ [item_of (now, mtype, ctext, Some md, io)]),
        storage := f, errors := es\<rparr>)"
    using add_memory_returns by blast
  then show ?thesis by (auto simp: with_memory_def item_of_def)
qed

text \<open>
  C4. A mention frame whose content is a string of more than 50 characters is handled
  without an exception, and the item appended to the log (the newest item of the store
  whenever the bound is not negative) has kind \<^verbatim>\<open>mentioned\<close>, the clock value as
  timestamp, the metadata \<^verbatim>\<open>thread_id\<close>, \<^verbatim>\<open>thread_title\<close>, \<^verbatim>\<open>from_user\<close>, and as
  content the fixed wording around user and title, then exactly the first 50 characters
  of the notification content, then the ellipsis \<^verbatim>\<open>...\<close>.
\<close>

theorem mention_stored_truncated:
  assumes "map_of data (asc ''type'') = Some (PStr (asc ''mention''))"
      and "map_of data (asc ''content'') = Some (PStr c)"
      and "50 < length c"
  shows "\<exists>a' m. handle_ws_message rp now io data a = Returns a'
           \<and> memories (memory a') = trim (max_items (memory a)) (memories (memory a) @ [m])
           \<and> (0 \<le> max_items (memory a) \<longrightarrow> last (memories (memory a')) = m)
           \<and> memory_type m = asc ''mentioned''
           \<and> content m =
               [34987] @ asc '' @''
               @ py_str rp (dict_get data (asc ''from_username'') (PStr (asc ''unknown'')))
               @ asc '' '' @ [22312, 12298]
               @ py_str rp (dict_get data (asc ''thread_title'') (PStr []))
               @ [12299, 20013, 25552, 21450] @ asc '': '' @ take 50 c @ asc ''...''
           \<and> length (take 50 c) = 50
           \<and> timestamp m = now
           \<and> metadata m =
               [(asc ''thread_id'', dict_get data (asc ''thread_id'') PNone),
                (asc ''thread_title'', dict_get data (asc ''thread_title'') (PStr [])),
                (asc ''from_user'',
                   dict_get data (asc ''from_username'') (PStr (asc ''unknown'')))]"
proof -
  let ?m = "\<lparr>memory_type = asc ''mentioned'',
             content = mention_text
               (py_str rp (dict_get data (asc ''from_username'') (PStr (asc ''unknown''))))
               (py_str rp (dict_get data (asc ''thread_title'') (PStr []))) (take 50 c),
             timestamp = now,
             metadata = [(asc ''thread_id'', dict_get data (asc ''thread_id'') PNone),
                (asc ''thread_title'', dict_get data (asc ''thread_title'') (PStr [])),
                (asc ''from_user'',
                   dict_get data (asc ''from_username'') (PStr (asc ''unknown'')))]\<rparr>"
  have "handle_ws_message rp now io data a =
          with_memory a (handle_notification rp now io data (memory a))"
    using assms(1) by (simp add: handle_ws_message_notification)
  then obtain f es where r: "handle_ws_message rp now io data a =
     Returns (a\<lparr>memory := (memory a)\<lparr>memories :=
        trim (max_items (memory a)) (memories (memory a) @ [?m]),
        storage := f, errors := es\<rparr>\<rparr>)"
    using with_memory_add handle_notification_mention [OF assms(1,2)] by metis
  let ?a' = "a\<lparr>memory := (memory a)\<lparr>memories :=
        trim (max_items (memory a)) (memories (memory a) @ [?m]),
        storage := f, errors := es\<rparr>\<rparr>"
  have ms: "memories (memory ?a') = trim (max_items (memory a)) (memories (memory a) @ [?m])"
    by simp
  have l: "0 \<le> max_items (memory a) \<longrightarrow> last (memories (memory ?a')) = ?m"
    unfolding ms using trim_last by blast
  have c: "content ?m = [34987] @ asc '' @''
               @ py_str rp (dict_get data (asc ''from_username'') (PStr (asc ''unknown'')))
               @ asc '' '' @ [22312, 12298]
               @ py_str rp (dict_get data (asc ''thread_title'') (PStr []))
               @ [12299, 20013, 25552, 21450] @ asc '': '' @ take 50 c @ asc ''...''"
    by (simp add: mention_text_def)
  have n: "length (take 50 c) = 50" using assms(3) by simp
  have k: "memory_type ?m = asc ''mentioned''" by simp
  have t: "timestamp ?m = now" by simp
  have d: "metadata ?m =
               [(asc ''thread_id'', dict_get data (asc ''thread_id'') PNone),
                (asc ''thread_title'', dict_get data (asc ''thread_title'') (PStr [])),
                (asc ''from_user'',
                   dict_get data (asc ''from_username'') (PStr (asc ''unknown'')))]" by simp
  show ?thesis
    by (rule exI [of _ ?a'], rule exI [of _ ?m]) (use r ms l c n k t d in blast)
qed

theorem mention_stored_truncated_witness:
  "map_of mention_frame (asc ''type'') = Some (PStr (asc ''mention''))
   \<and> map_of mention_frame (asc ''content'') = Some (PStr (replicate 60 97))
   \<and> 50 < length (replicate 60 (97::nat))
   \<and> 0 \<le> max_items (memory example_adapter)
   \<and> (\<exists>a' m. handle_ws_message (\<lambda>v. []) example_time NoFault mention_frame example_adapter
                  = Returns a'
         \<and> last (memories (memory a')) = m
         \<and> memory_type m = asc ''mentioned''
         \<and> content m = [34987] @ asc '' @bob '' @ [22312, 12298] @ asc ''Hello''
                        @ [12299, 20013, 25552, 21450] @ asc '': '' @ replicate 50 97
                        @ asc ''...''
         \<and> metadata m = [(asc ''thread_id'', PInt 42),
                          (asc ''thread_title'', PStr (asc ''Hello'')),
                          (asc ''from_user'', PStr (asc ''bob''))])"
proof -
  have h1: "map_of mention_frame (asc ''type'') = Some (PStr (asc ''mention''))"
    by (simp add: mention_frame_def asc_def)
  have h2: "map_of mention_frame (asc ''content'') = Some (PStr (replicate 60 97))"
    by (simp add: mention_frame_def asc_def)
  have h3: "50 < length (replicate 60 (97::nat))" by simp
  have h4: "0 \<le> max_items (memory example_adapter)"
    by (simp add: example_adapter_def example_store_def)
  have g: "dict_get mention_frame (asc ''from_username'') (PStr (asc ''unknown'')) = PStr (asc ''bob'')"
    "dict_get mention_frame (asc ''thread_title'') (PStr []) = PStr (asc ''Hello'')"
    "dict_get mention_frame (asc ''thread_id'') PNone = PInt 42"
    by (simp_all add: dict_get_def mention_frame_def asc_def)
  have t: "take 50 (replicate 60 (97::nat)) = replicate 50 97" by simp
  have p: "py_str (\<lambda>v. []) (PStr s) = s" for s by (simp add: py_str_def)
  have j: "asc '' @bob '' = asc '' @'' @ asc ''bob'' @ asc '' ''" by (simp add: asc_def)
  from mention_stored_truncated [OF h1 h2 h3, of "\<lambda>v. []" example_time NoFault example_adapter]
  obtain a' m where
    "handle_ws_message (\<lambda>v. []) example_time NoFault mention_frame example_adapter = Returns a'"
    "last (memories (memory a')) = m" "memory_type m = asc ''mentioned''"
    "content m = [34987] @ asc '' @'' @ asc ''bob'' @ asc '' '' @ [22312, 12298] @ asc ''Hello''
                        @ [12299, 20013, 25552, 21450] @ asc '': '' @ replicate 50 97
                        @ asc ''...''"
    "metadata m = [(asc ''thread_id'', PInt 42),
                          (asc ''thread_title'', PStr (asc ''Hello'')),
                          (asc ''from_user'', PStr (asc ''bob''))]"
    unfolding g t p using h4 by blast
  then show ?thesis using h1 h2 h3 h4 unfolding j by (metis append_assoc)
qed

text \<open>
  C10. For a frame of kind mention, reply or sub_reply whose content is a string of any
  length, the content of the appended item ends with the first 50 characters of the
  notification content followed by the ellipsis; a content of at most 50 characters is
  there in full, and the ellipsis follows it all the same.
\<close>

theorem notification_content_ends_with_ellipsis:
  assumes "map_of data (asc ''type'') = Some (PStr k)"
      and "k = asc ''mention'' \<or> k = asc ''reply'' \<or> k = asc ''sub_reply''"
      and "map_of data (asc ''content'') = Some (PStr c)"
  shows "\<exists>a' m pre. handle_ws_message rp now io data a = Returns a'
           \<and> memories (memory a') = trim (max_items (memory a)) (memories (memory a) @ [m])
           \<and> (0 \<le> max_items (memory a) \<longrightarrow> last (memories (memory a')) = m)
           \<and> memory_type m = (if k = asc ''mention'' then asc ''mentioned'' else asc ''replied'')
           \<and> content m = pre @ take 50 c @ asc ''...''
           \<and> (length c \<le> 50 \<longrightarrow> content m = pre @ c @ asc ''...'')"
proof -
  let ?u = "py_str rp (dict_get data (asc ''from_username'') (PStr (asc ''unknown'')))"
  let ?t = "py_str rp (dict_get data (asc ''thread_title'') (PStr []))"
  let ?md = "[(asc ''thread_id'', dict_get data (asc ''thread_id'') PNone),
              (asc ''thread_title'', dict_get data (asc ''thread_title'') (PStr [])),
              (asc ''from_user'', dict_get data (asc ''from_username'') (PStr (asc ''unknown'')))]"
  let ?kind = "if k = asc ''mention'' then asc ''mentioned'' else asc ''replied''"
  let ?text = "if k = asc ''mention'' then mention_text ?u ?t (take 50 c)
               else reply_text ?u ?t (take 50 c)"
  let ?pre = "if k = asc ''mention''
              then [34987] @ asc '' @'' @ ?u @ asc '' '' @ [22312, 12298] @ ?t
                   @ [12299, 20013, 25552, 21450] @ asc '': ''
              else ?u @ asc '' '' @ [22238, 22797, 20102, 20320, 22312, 12298] @ ?t
                   @ [12299, 20013, 30340, 21457, 35328] @ asc '': ''"
  let ?m = "\<lparr>memory_type = ?kind, content = ?text, timestamp = now, metadata = ?md\<rparr>"
  have w: "handle_ws_message rp now io data a =
          with_memory a (handle_notification rp now io data (memory a))"
    using assms(1,2) by (rule handle_ws_message_notification)
  have h: "handle_notification rp now io data (memory a) =
             add_memory now ?kind ?text (Some ?md) io (memory a)"
  proof (cases "k = asc ''mention''")
    case True
    then show ?thesis using handle_notification_mention [of data c] assms(1,3) by simp
  next
    case False
    then show ?thesis using handle_notification_reply [OF assms(1) False assms(3)] by simp
  qed
  obtain f es where r: "handle_ws_message rp now io data a =
     Returns (a\<lparr>memory := (memory a)\<lparr>memories :=
        trim (max_items (memory a)) (memories (memory a) @ [?m]),
        storage := f, errors := es\<rparr>\<rparr>)"
    using with_memory_add [of a now ?kind ?text ?md io] w h by auto
  let ?a' = "a\<lparr>memory := (memory a)\<lparr>memories :=
        trim (max_items (memory a)) (memories (memory a) @ [?m]),
        storage := f, errors := es\<rparr>\<rparr>"
  have ms: "memories (memory ?a') = trim (max_items (memory a)) (memories (memory a) @ [?m])"
    by simp
  have l: "0 \<le> max_items (memory a) \<longrightarrow> last (memories (memory ?a')) = ?m"
    unfolding ms using trim_last by blast
  have c: "content ?m = ?pre @ take 50 c @ asc ''...''"
    by (simp add: mention_text_def reply_text_def)
  have s: "length c \<le> 50 \<longrightarrow> content ?m = ?pre @ c @ asc ''...''"
    using c by simp
  have kd: "memory_type ?m = ?kind" by simp
  show ?thesis
    by (rule exI [of _ ?a'], rule exI [of _ ?m], rule exI [of _ ?pre])
       (use r ms l c s kd in blast)
qed

theorem notification_content_ends_with_ellipsis_witness:
  "map_of short_reply_frame (asc ''type'') = Some (PStr (asc ''reply''))
   \<and> map_of short_reply_frame (asc ''content'') = Some (PStr (asc ''ok''))
   \<and> 0 \<le> max_items (memory example_adapter)
   \<and> length (asc ''ok'') \<le> 50
   \<and> (\<exists>a' m pre. handle_ws_message (\<lambda>v. []) example_time NoFault short_reply_frame
                      example_adapter = Returns a'
         \<and> last (memories (memory a')) = m
         \<and> memory_type m = asc ''replied''
         \<and> content m = pre @ asc ''ok'' @ asc ''...'')"
proof -
  have h1: "map_of short_reply_frame (asc ''type'') = Some (PStr (asc ''reply''))"
    by (simp add: short_reply_frame_def asc_def)
  have h2: "asc ''reply'' = asc ''mention'' \<or> asc ''reply'' = asc ''reply''
            \<or> asc ''reply'' = asc ''sub_reply''" by simp
  have h3: "map_of short_reply_frame (asc ''content'') = Some (PStr (asc ''ok''))"
    by (simp add: short_reply_frame_def asc_def)
  have h4: "0 \<le> max_items (memory example_adapter)"
    by (simp add: example_adapter_def example_store_def)
  have h5: "length (asc ''ok'') \<le> 50" by (simp add: asc_def)
  have ne: "asc ''reply'' \<noteq> asc ''mention''" by (simp add: asc_def)
  from notification_content_ends_with_ellipsis
         [OF h1 h2 h3, of "\<lambda>v. []" example_time NoFault example_adapter]
  obtain a' m pre where
    "handle_ws_message (\<lambda>v. []) example_time NoFault short_reply_frame example_adapter
       = Returns a'"
    "last (memories (memory a')) = m" "memory_type m = asc ''replied''"
    "content m = pre @ asc ''ok'' @ asc ''...''"
    using h4 h5 ne by auto
  then show ?thesis using h1 h3 h4 h5 by blast
qed

section \<open>Startup\<close>

text \<open>
  C8. With an empty token \<open>run\<close> returns at once and leaves the adapter as it was, so
  no task is created. With any other token it creates the connection-loop task and
  awaits its tasks. In neither case does it raise.
\<close>

theorem run_disabled_iff_no_token:
  "(token a = [] \<longrightarrow> run a = (a, Returns ReturnedDisabled))
   \<and> (token a \<noteq> [] \<longrightarrow>
        snd (run a) = Returns AwaitingTasks \<and> WsLoopTask \<in> set (tasks (fst (run a))))
   \<and> (snd (run a) = Returns ReturnedDisabled) = (token a = [])
   \<and> (\<forall>e. snd (run a) \<noteq> Raises e)"
  by (simp add: run_def Let_def)

theorem run_disabled_iff_no_token_witness:
  "token (example_adapter\<lparr>token := []\<rparr>) = []
   \<and> run (example_adapter\<lparr>token := []\<rparr>)
       = (example_adapter\<lparr>token := []\<rparr>, Returns ReturnedDisabled)
   \<and> tasks (fst (run (example_adapter\<lparr>token := []\<rparr>))) = []
   \<and> token example_adapter \<noteq> []
   \<and> snd (run example_adapter) = Returns AwaitingTasks
   \<and> WsLoopTask \<in> set (tasks (fst (run example_adapter)))"
  using run_disabled_iff_no_token [of "example_adapter\<lparr>token := []\<rparr>"]
    run_disabled_iff_no_token [of example_adapter]
  by (simp add: example_adapter_def asc_def)

end
